theory Spec2Isabelle
  imports Complex_Main "HOL-Library.AList"
begin

section \<open>Python values\<close>

text \<open>
  Python ints are \<open>int\<close>, and a \<open>dict\<close> whose insertion order and size matter is an
  association list with one entry per key.  A value that may be Python's \<open>None\<close> is an
  \<open>option\<close>.  A finite Python float is the real number it denotes.  Where the source
  computes with floats whose result depends on rounding or may overflow (the REBA sum), the
  arithmetic is that of IEEE binary64, defined below; the angles of the extractor, the
  completeness ratio and the halves of small integers are computed over the reals.  Feature
  values and weights are Python floats, as the extractor and the default tables give them;
  those that are themselves infinite or NaN, and Python ints beyond the range of a float,
  are outside this model.
\<close>

text \<open>Exceptions are values.  \<open>External\<close> stands for whatever the image reader or the
  inference session raises; the others are raised by the modelled code itself.\<close>

datatype py_error = IndexError | ValueError | ZeroDivisionError | OverflowError | External string

definition bind_err :: "py_error + 'a \<Rightarrow> ('a \<Rightarrow> py_error + 'b) \<Rightarrow> py_error + 'b" where
  "bind_err m f = (case m of Inl e \<Rightarrow> Inl e | Inr v \<Rightarrow> f v)"

text \<open>\<open>d.get(k)\<close> on a dict whose values may be \<open>None\<close>: a missing key and a key bound to
  \<open>None\<close> both give \<open>None\<close>.\<close>

definition dict_get :: "(string \<times> 'a option) list \<Rightarrow> string \<Rightarrow> 'a option" where
  "dict_get d k = (case map_of d k of None \<Rightarrow> None | Some v \<Rightarrow> v)"

text \<open>\<open>m.get(k, default)\<close> on a configuration mapping.\<close>

definition get_or :: "('k \<rightharpoonup> 'v) \<Rightarrow> 'k \<Rightarrow> 'v \<Rightarrow> 'v" where
  "get_or m k dflt = (case m k of None \<Rightarrow> dflt | Some v \<Rightarrow> v)"

text \<open>Python's \<open>int(x)\<close> on a float truncates towards zero.\<close>

definition py_int :: "real \<Rightarrow> int" where
  "py_int x = (if 0 \<le> x then \<lfloor>x\<rfloor> else \<lceil>x\<rceil>)"

text \<open>Python's built-in \<open>round(x)\<close> rounds to the nearest integer, ties to the even one;
  \<open>round(x, n)\<close> does the same at the n-th decimal.\<close>

definition py_round :: "real \<Rightarrow> int" where
  "py_round x =
     (let f = \<lfloor>x\<rfloor>; d = x - of_int f
      in if d < 1 / 2 then f else if 1 / 2 < d then f + 1 else if even f then f else f + 1)"

definition py_round_ndigits :: "real \<Rightarrow> nat \<Rightarrow> real" where
  "py_round_ndigits x n = of_int (py_round (x * 10 ^ n)) / 10 ^ n"

subsection \<open>Binary floating point\<close>

text \<open>Rounding a real number to precision \<open>p\<close> (bits of the significand) with least
  normal exponent \<open>emin\<close>, to nearest and ties to even, with no bound on the exponent
  above: the number is written in units of the last place of its binade (the binade of
  the least normal number, for a subnormal one) and the count of units is rounded.\<close>

definition binade :: "int \<Rightarrow> real \<Rightarrow> int" where
  "binade emin x = max \<lfloor>log 2 \<bar>x\<bar>\<rfloor> emin"

definition ulp :: "nat \<Rightarrow> int \<Rightarrow> real \<Rightarrow> real" where
  "ulp p emin x = 2 powi (binade emin x - (int p - 1))"

definition round_binary :: "nat \<Rightarrow> int \<Rightarrow> real \<Rightarrow> real" where
  "round_binary p emin x =
     (if x = 0 then 0 else of_int (py_round (x / ulp p emin x)) * ulp p emin x)"

text \<open>binary64 (a Python float) and binary32 (a \<open>float32\<close> tensor entry).\<close>

definition round_binary64 :: "real \<Rightarrow> real" where
  "round_binary64 = round_binary 53 (- 1022)"

definition round_binary32 :: "real \<Rightarrow> real" where
  "round_binary32 = round_binary 24 (- 126)"

definition max_binary64 :: real where
  "max_binary64 = (2 ^ 53 - 1) * 2 ^ 971"

text \<open>A Python float: finite, infinite or NaN.  The sign of a zero is not kept: nothing
  modelled with this type divides by a computed float.\<close>

datatype pyfloat = Finite real | PosInf | NegInf | NaN

text \<open>The float an exact result is delivered as: rounded, and infinite when the rounded
  magnitude exceeds the largest binary64 number.\<close>

definition fl :: "real \<Rightarrow> pyfloat" where
  "fl x =
     (let r = round_binary64 x
      in if max_binary64 < r then PosInf
         else if r < - max_binary64 then NegInf
         else Finite r)"

fun float_add :: "pyfloat \<Rightarrow> pyfloat \<Rightarrow> pyfloat" where
  "float_add (Finite x) (Finite y) = fl (x + y)"
| "float_add NaN b = NaN"
| "float_add a NaN = NaN"
| "float_add PosInf NegInf = NaN"
| "float_add NegInf PosInf = NaN"
| "float_add PosInf b = PosInf"
| "float_add a PosInf = PosInf"
| "float_add NegInf b = NegInf"
| "float_add a NegInf = NegInf"

text \<open>The sign of a float, for a product with an infinity or NaN: 1, -1, and 0 for a zero
  and for NaN, which both make such a product NaN.\<close>

fun float_sgn :: "pyfloat \<Rightarrow> int" where
  "float_sgn (Finite x) = (if 0 < x then 1 else if x < 0 then - 1 else 0)"
| "float_sgn PosInf = 1"
| "float_sgn NegInf = - 1"
| "float_sgn NaN = 0"

fun float_mul :: "pyfloat \<Rightarrow> pyfloat \<Rightarrow> pyfloat" where
  "float_mul (Finite x) (Finite y) = fl (x * y)"
| "float_mul a b =
     (if float_sgn a * float_sgn b = 0 then NaN
      else if 0 < float_sgn a * float_sgn b then PosInf
      else NegInf)"

text \<open>Division by the literal 2.\<close>

fun float_half :: "pyfloat \<Rightarrow> pyfloat" where
  "float_half (Finite x) = fl (x / 2)"
| "float_half a = a"

text \<open>\<open>a < t\<close> for a float and a finite number: false for NaN.\<close>

fun float_less :: "pyfloat \<Rightarrow> real \<Rightarrow> bool" where
  "float_less (Finite x) t = (x < t)"
| "float_less NegInf t = True"
| "float_less PosInf t = False"
| "float_less NaN t = False"

text \<open>\<open>int(a)\<close>: truncation, OverflowError on an infinity, ValueError on NaN.\<close>

fun float_int :: "pyfloat \<Rightarrow> py_error + int" where
  "float_int (Finite x) = Inr (py_int x)"
| "float_int PosInf = Inl OverflowError"
| "float_int NegInf = Inl OverflowError"
| "float_int NaN = Inl ValueError"

section \<open>Biomechanical risk scorer (services/risk\_scoring.py)\<close>

type_synonym features = "(string \<times> real option) list"

record thresholds =
  low :: real
  medium :: real
  high :: real

text \<open>The scorer object: the three tables \<open>__init__\<close> reads from the configuration.  The
  configuration file itself is not part of the sources, so the tables are parameters;
  \<open>default_scorer\<close> holds the tables of \<open>_get_default_config\<close>, used when the file is absent.
  A float literal of the source denotes the binary64 number nearest to it.\<close>

record scorer =
  ergonomic_thresholds :: "string \<rightharpoonup> thresholds"
  reba_weights :: "string \<rightharpoonup> real"
  risk_levels :: "(string \<times> int \<times> int) list"

definition default_scorer :: scorer where
  "default_scorer =
     \<lparr> ergonomic_thresholds = map_of
         [(''neck_flexion'', \<lparr>low = 20, medium = 45, high = 60\<rparr>),
          (''trunk_flexion'', \<lparr>low = 20, medium = 45, high = 60\<rparr>),
          (''shoulder_abduction'', \<lparr>low = 45, medium = 90, high = 135\<rparr>)],
       reba_weights = map_of
         [(''neck'', round_binary64 (20 / 100)), (''trunk'', round_binary64 (25 / 100)),
          (''upper_arm'', round_binary64 (20 / 100)),
          (''lower_arm'', round_binary64 (15 / 100))],
       risk_levels =
         [(''negligible'', 0, 20), (''low'', 21, 40), (''medium'', 41, 60),
          (''high'', 61, 80), (''very_high'', 81, 100)] \<rparr>"

definition score_angle :: "real option \<Rightarrow> thresholds \<Rightarrow> int" where
  "score_angle angle th =
     (case angle of
        None \<Rightarrow> 0
      | Some a \<Rightarrow>
          if a < low th then 1
          else if a < medium th then 2
          else if a < high th then 3
          else 4)"

text \<open>The same function on a computed float, which may be infinite or NaN: the two-sided
  average of \<open>calculate_reba_score\<close> is one.  On a finite float it is \<open>score_angle\<close>.\<close>

definition score_angle_float :: "pyfloat option \<Rightarrow> thresholds \<Rightarrow> int" where
  "score_angle_float angle th =
     (case angle of
        None \<Rightarrow> 0
      | Some a \<Rightarrow>
          if float_less a (low th) then 1
          else if float_less a (medium th) then 2
          else if float_less a (high th) then 3
          else 4)"

text \<open>The two-sided average of \<open>calculate_reba_score\<close> (written out twice in the source, for
  the shoulders and for the elbows): the float sum of both sides, halved.\<close>

definition avg_sides :: "real option \<Rightarrow> real option \<Rightarrow> pyfloat option" where
  "avg_sides left right =
     (case (left, right) of
        (Some l, Some r) \<Rightarrow> Some (float_half (float_add (Finite l) (Finite r)))
      | (Some l, None) \<Rightarrow> Some (Finite l)
      | (None, Some r) \<Rightarrow> Some (Finite r)
      | (None, None) \<Rightarrow> None)"

definition calculate_confidence :: "features \<Rightarrow> real" where
  "calculate_confidence ergonomic_features =
     (let available_features = length (filter (\<lambda>(k, v). v \<noteq> None) ergonomic_features);
          total_features = length ergonomic_features
      in if total_features = 0 then 0
         else real available_features / real total_features)"

record reba_result =
  reba_score :: int
  neck_score :: int
  trunk_score :: int
  upper_arm_score :: int
  lower_arm_score :: int
  reba_confidence :: real

record rula_result =
  rula_score :: int
  group_a_score :: int
  group_b_score :: int
  rula_confidence :: real

definition neck_thresholds :: "scorer \<Rightarrow> thresholds" where
  "neck_thresholds sc =
     get_or (ergonomic_thresholds sc) ''neck_flexion'' \<lparr>low = 20, medium = 45, high = 60\<rparr>"

definition trunk_thresholds :: "scorer \<Rightarrow> thresholds" where
  "trunk_thresholds sc =
     get_or (ergonomic_thresholds sc) ''trunk_flexion'' \<lparr>low = 20, medium = 45, high = 60\<rparr>"

definition shoulder_thresholds :: "scorer \<Rightarrow> thresholds" where
  "shoulder_thresholds sc =
     get_or (ergonomic_thresholds sc) ''shoulder_abduction'' \<lparr>low = 45, medium = 90, high = 135\<rparr>"

definition elbow_thresholds :: "scorer \<Rightarrow> thresholds" where
  "elbow_thresholds sc =
     get_or (ergonomic_thresholds sc) ''elbow_flexion'' \<lparr>low = 60, medium = 100, high = 140\<rparr>"

text \<open>An ordinal times a weight: the int is converted to a float, exactly, and the
  product is a float product.\<close>

definition int_times_float :: "int \<Rightarrow> real \<Rightarrow> pyfloat" where
  "int_times_float n w = float_mul (Finite (of_int n)) (Finite w)"

text \<open>\<open>int(weighted_score * 25)\<close> raises when the product is infinite or NaN; nothing else
  in the function can raise.\<close>

definition calculate_reba_score :: "scorer \<Rightarrow> features \<Rightarrow> py_error + reba_result" where
  "calculate_reba_score sc ergonomic_features =
     (let neck = score_angle (dict_get ergonomic_features ''neck_flexion'') (neck_thresholds sc);
          trunk = score_angle (dict_get ergonomic_features ''trunk_flexion'') (trunk_thresholds sc);
          avg_shoulder = avg_sides (dict_get ergonomic_features ''left_shoulder_abduction'')
                                   (dict_get ergonomic_features ''right_shoulder_abduction'');
          upper_arm = score_angle_float avg_shoulder (shoulder_thresholds sc);
          avg_elbow = avg_sides (dict_get ergonomic_features ''left_elbow_flexion'')
                                (dict_get ergonomic_features ''right_elbow_flexion'');
          lower_arm = score_angle_float avg_elbow (elbow_thresholds sc);
          weighted_score =
            float_add
              (float_add
                (float_add
                  (int_times_float neck
                     (get_or (reba_weights sc) ''neck'' (round_binary64 (20 / 100))))
                  (int_times_float trunk
                     (get_or (reba_weights sc) ''trunk'' (round_binary64 (25 / 100)))))
                (int_times_float upper_arm
                   (get_or (reba_weights sc) ''upper_arm'' (round_binary64 (20 / 100)))))
              (int_times_float lower_arm
                 (get_or (reba_weights sc) ''lower_arm'' (round_binary64 (15 / 100))))
      in bind_err (float_int (float_mul weighted_score (Finite 25))) (\<lambda>score.
         Inr \<lparr> reba_score = min score 100,
               neck_score = neck,
               trunk_score = trunk,
               upper_arm_score = upper_arm,
               lower_arm_score = lower_arm,
               reba_confidence = calculate_confidence ergonomic_features \<rparr>))"

definition calculate_rula_score :: "scorer \<Rightarrow> features \<Rightarrow> rula_result" where
  "calculate_rula_score sc ergonomic_features =
     (let upper_arm = score_angle (dict_get ergonomic_features ''left_shoulder_abduction'')
                                  (shoulder_thresholds sc);
          lower_arm = score_angle (dict_get ergonomic_features ''left_elbow_flexion'')
                                  (elbow_thresholds sc);
          neck = score_angle (dict_get ergonomic_features ''neck_flexion'') (neck_thresholds sc);
          trunk = score_angle (dict_get ergonomic_features ''trunk_flexion'') (trunk_thresholds sc);
          group_a = upper_arm + lower_arm;
          group_b = neck + trunk;
          score = py_int (of_int (group_a + group_b) * (125 / 10))
      in \<lparr> rula_score = min score 100,
           group_a_score = group_a,
           group_b_score = group_b,
           rula_confidence = calculate_confidence ergonomic_features \<rparr>)"

fun get_risk_level_loop :: "(string \<times> int \<times> int) list \<Rightarrow> int \<Rightarrow> string" where
  "get_risk_level_loop [] score = ''unknown''"
| "get_risk_level_loop ((level, min_score, max_score) # rest) score =
     (if min_score \<le> score \<and> score \<le> max_score then level
      else get_risk_level_loop rest score)"

definition get_risk_level :: "scorer \<Rightarrow> int \<Rightarrow> string" where
  "get_risk_level sc score = get_risk_level_loop (risk_levels sc) score"

definition get_traffic_light :: "int \<Rightarrow> string" where
  "get_traffic_light score =
     (if score \<le> 40 then ''green'' else if score \<le> 60 then ''yellow'' else ''red'')"

text \<open>The dict \<open>compute_risk\<close> returns.  A key the returned dict does not have is \<open>None\<close>
  here, as is a key bound to \<open>None\<close>; \<open>niosh\<close> is \<open>None\<close> on every path.  \<open>risk_error\<close> is
  the key \<open>error\<close>: the exception whose text the \<open>except\<close> branch stores.\<close>

record risk_assessment =
  rula :: "int option"
  reba :: "int option"
  niosh :: "int option"
  composite :: "int option"
  confidence :: "real option"
  traffic_light :: "string option"
  risk_level :: "string option"
  details :: "(reba_result \<times> rula_result) option"
  risk_error :: "py_error option"

definition no_features_assessment :: risk_assessment where
  "no_features_assessment =
     \<lparr> rula = None, reba = None, niosh = None, composite = None, confidence = None,
       traffic_light = None, risk_level = None, details = None, risk_error = None \<rparr>"

definition error_assessment :: "py_error \<Rightarrow> risk_assessment" where
  "error_assessment e =
     \<lparr> rula = None, reba = None, niosh = None, composite = None, confidence = None,
       traffic_light = None, risk_level = None, details = None, risk_error = Some e \<rparr>"

text \<open>The body of the \<open>try\<close> block.  The REBA score is computed first and is the one
  statement that can raise.\<close>

definition compute_risk_try :: "scorer \<Rightarrow> features \<Rightarrow> py_error + risk_assessment" where
  "compute_risk_try sc ergonomic_features =
     bind_err (calculate_reba_score sc ergonomic_features) (\<lambda>reba_res.
       let rula_res = calculate_rula_score sc ergonomic_features;
           composite_score = py_int (of_int (reba_score reba_res + rula_score rula_res) / 2);
           composite_confidence = (reba_confidence reba_res + rula_confidence rula_res) / 2
       in Inr \<lparr> rula = Some (rula_score rula_res),
                 reba = Some (reba_score reba_res),
                 niosh = None,
                 composite = Some composite_score,
                 confidence = Some (py_round_ndigits composite_confidence 2),
                 traffic_light = Some (get_traffic_light composite_score),
                 risk_level = Some (get_risk_level sc composite_score),
                 details = Some (reba_res, rula_res),
                 risk_error = None \<rparr>)"

text \<open>\<open>inputs\<close> is the argument dict, of which only the key \<open>ergonomic_features\<close> is read:
  \<open>None\<close> stands for a dict without that key.\<close>

definition compute_risk :: "scorer \<Rightarrow> features option \<Rightarrow> risk_assessment" where
  "compute_risk sc inputs =
     (let ergonomic_features = (case inputs of None \<Rightarrow> [] | Some f \<Rightarrow> f)
      in if ergonomic_features = [] then no_features_assessment
         else
           (case compute_risk_try sc ergonomic_features of
              Inr result \<Rightarrow> result
            | Inl e \<Rightarrow> error_assessment e))"

text \<open>The feature dict the extractor starts from: all eight keys, each \<open>None\<close>.\<close>

definition feature_names :: "string list" where
  "feature_names =
     [''neck_flexion'', ''trunk_flexion'', ''left_shoulder_abduction'',
      ''right_shoulder_abduction'', ''left_elbow_flexion'', ''right_elbow_flexion'',
      ''asymmetry_score'', ''reach_distance_ratio'']"

definition initial_features :: features where
  "initial_features = map (\<lambda>k. (k, None)) feature_names"

section \<open>Keypoint decoder (ml/pose\_pipeline.py)\<close>

record keypoint =
  kp_id :: nat
  kp_name :: string
  kp_x :: real
  kp_y :: real
  kp_confidence :: real

text \<open>A numpy array: its shape and its entries by multi-index.  The rank is the length of
  the shape.  \<open>as_dtype\<close> is the conversion NumPy applies to a Python float that is compared
  with an entry of the array: the rounding to the array's dtype under the promotion rules of
  NumPy 2 (\<open>round_binary32\<close> for a \<open>float32\<close> array), the identity for a \<open>float64\<close> array
  and under NumPy 1, which widens the entry instead.\<close>

record ndarray =
  shape :: "nat list"
  item :: "nat list \<Rightarrow> real"
  as_dtype :: "real \<Rightarrow> real"

definition ndim :: "ndarray \<Rightarrow> nat" where
  "ndim a = length (shape a)"

text \<open>\<open>y, x, confidence = model_output[0, idx, :]\<close> on an array of rank 3, for
  \<open>idx\<close> below \<open>shape[1]\<close>: index 0 is out of bounds when the first axis is empty
  (IndexError), and the row unpacks into three names only when the last axis has length 3
  (ValueError otherwise).\<close>

definition unpack_row :: "ndarray \<Rightarrow> nat \<Rightarrow> py_error + (real \<times> real \<times> real)" where
  "unpack_row a idx =
     (if shape a ! 0 = 0 then Inl IndexError
      else if shape a ! 2 \<noteq> 3 then Inl ValueError
      else Inr (item a [0, idx, 0], item a [0, idx, 1], item a [0, idx, 2]))"

text \<open>The \<open>pose_estimation\<close> section of the configuration; an absent key is \<open>None\<close>.\<close>

record pose_config =
  confidence_threshold :: "real option"
  keypoint_names :: "string list option"

text \<open>Decimal digits of a natural number, for the f-string \<open>keypoint_{idx}\<close>.\<close>

fun str_nat :: "nat \<Rightarrow> string" where
  "str_nat n =
     (if n < 10 then [''0123456789'' ! n]
      else str_nat (n div 10) @ [''0123456789'' ! (n mod 10)])"

definition keypoint_name :: "string list \<Rightarrow> nat \<Rightarrow> string" where
  "keypoint_name names idx =
     (if idx < length names then names ! idx else ''keypoint_'' @ str_nat idx)"

fun extract_loop ::
  "real \<Rightarrow> string list \<Rightarrow> ndarray \<Rightarrow> nat list \<Rightarrow> keypoint list \<Rightarrow> py_error + keypoint list"
where
  "extract_loop t names a [] keypoints = Inr keypoints"
| "extract_loop t names a (idx # rest) keypoints =
     (case unpack_row a idx of
        Inl e \<Rightarrow> Inl e
      | Inr (y, x, c) \<Rightarrow>
          extract_loop t names a rest
            (if as_dtype a t \<le> c
             then keypoints @
                    [\<lparr> kp_id = idx, kp_name = keypoint_name names idx,
                       kp_x = x, kp_y = y, kp_confidence = c \<rparr>]
             else keypoints))"

definition extract_keypoints :: "pose_config \<Rightarrow> ndarray \<Rightarrow> py_error + keypoint list" where
  "extract_keypoints cfg model_output =
     (let t = (case confidence_threshold cfg of None \<Rightarrow> 3 / 10 | Some v \<Rightarrow> v);
          names = (case keypoint_names cfg of None \<Rightarrow> [] | Some ns \<Rightarrow> ns)
      in if ndim model_output = 3
         then extract_loop t names model_output [0 ..< shape model_output ! 1] []
         else Inr [])"

section \<open>Ergonomic feature extractor (ml/pose\_pipeline.py)\<close>

text \<open>Numeric primitives.  Every division whose divisor is not a literal constant and the
  arc cosine are checked here: a zero divisor is an error value, and so is an arc cosine
  argument outside \<open>[-1, 1]\<close>, so that the guards of the source are visible in the model.
  Divisions by the literal 2 are written with plain \<open>/\<close>.\<close>

definition checked_div :: "real \<Rightarrow> real \<Rightarrow> py_error + real" where
  "checked_div a b = (if b = 0 then Inl ZeroDivisionError else Inr (a / b))"

definition checked_arccos :: "real \<Rightarrow> py_error + real" where
  "checked_arccos c = (if - 1 \<le> c \<and> c \<le> 1 then Inr (arccos c) else Inl ValueError)"

definition clip :: "real \<Rightarrow> real \<Rightarrow> real \<Rightarrow> real" where
  "clip v lo hi = min hi (max lo v)"

definition degrees :: "real \<Rightarrow> real" where
  "degrees r = r * 180 / pi"

text \<open>The two-argument arc tangent, with values in \<open>(-pi, pi]\<close>.\<close>

definition arctan2 :: "real \<Rightarrow> real \<Rightarrow> real" where
  "arctan2 y x =
     (if 0 < x then arctan (y / x)
      else if x < 0 \<and> 0 \<le> y then arctan (y / x) + pi
      else if x < 0 then arctan (y / x) - pi
      else if 0 < y then pi / 2
      else if y < 0 then - (pi / 2)
      else 0)"

type_synonym point = "real \<times> real"

definition dot :: "point \<Rightarrow> point \<Rightarrow> real" where
  "dot v w = fst v * fst w + snd v * snd w"

definition norm2 :: "point \<Rightarrow> real" where
  "norm2 v = sqrt (fst v * fst v + snd v * snd v)"

definition calculate_angle :: "point \<Rightarrow> point \<Rightarrow> point \<Rightarrow> py_error + real" where
  "calculate_angle p1 p2 p3 =
     (let v1 = (fst p1 - fst p2, snd p1 - snd p2);
          v2 = (fst p3 - fst p2, snd p3 - snd p2)
      in bind_err (checked_div (dot v1 v2) (norm2 v1 * norm2 v2 + 1 / 10 ^ 6)) (\<lambda>cos_angle.
         bind_err (checked_arccos (clip cos_angle (- 1) 1)) (\<lambda>angle.
         Inr (degrees angle))))"

fun get_keypoint_by_name :: "keypoint list \<Rightarrow> string \<Rightarrow> keypoint option" where
  "get_keypoint_by_name [] name = None"
| "get_keypoint_by_name (kp # rest) name =
     (if kp_name kp = name then Some kp else get_keypoint_by_name rest name)"

definition pt :: "keypoint \<Rightarrow> point" where
  "pt kp = (kp_x kp, kp_y kp)"

text \<open>The eight blocks of \<open>calculate_ergonomic_features\<close>, in the order of the source.  Each
  takes the lookups it tests and the feature dict so far.  A found keypoint is a non-empty
  dict, hence true in a condition; \<open>None\<close> is false.\<close>

definition set_neck_flexion ::
  "keypoint option \<Rightarrow> keypoint option \<Rightarrow> keypoint option \<Rightarrow> features \<Rightarrow> py_error + features"
where
  "set_neck_flexion nose left_shoulder right_shoulder fs =
     (case (nose, left_shoulder, right_shoulder) of
        (Some n, Some ls, Some rs) \<Rightarrow>
          (let mid_shoulder_x = (kp_x ls + kp_x rs) / 2;
               mid_shoulder_y = (kp_y ls + kp_y rs) / 2;
               neck_angle = \<bar>arctan2 (kp_y n - mid_shoulder_y) (kp_x n - mid_shoulder_x)\<bar>
           in Inr (AList.update ''neck_flexion'' (Some (degrees neck_angle)) fs))
      | _ \<Rightarrow> Inr fs)"

definition set_trunk_flexion ::
  "keypoint option \<Rightarrow> keypoint option \<Rightarrow> keypoint option \<Rightarrow> keypoint option \<Rightarrow>
   features \<Rightarrow> py_error + features"
where
  "set_trunk_flexion left_shoulder left_hip right_shoulder right_hip fs =
     (case (left_shoulder, left_hip, right_shoulder, right_hip) of
        (Some ls, Some lh, Some rs, Some rh) \<Rightarrow>
          (let mid_shoulder_x = (kp_x ls + kp_x rs) / 2;
               mid_shoulder_y = (kp_y ls + kp_y rs) / 2;
               mid_hip_x = (kp_x lh + kp_x rh) / 2;
               mid_hip_y = (kp_y lh + kp_y rh) / 2;
               trunk_angle =
                 \<bar>arctan2 (mid_shoulder_y - mid_hip_y) (mid_shoulder_x - mid_hip_x) - pi / 2\<bar>
           in Inr (AList.update ''trunk_flexion'' (Some (degrees trunk_angle)) fs))
      | _ \<Rightarrow> Inr fs)"

text \<open>The four vertex-angle blocks differ only in the key and the keypoints: each tests that
  its three keypoints were found and stores \<open>calculate_angle p1 p2 p3\<close>, the angle at
  \<open>p2\<close>.\<close>

definition set_vertex_angle ::
  "string \<Rightarrow> keypoint option \<Rightarrow> keypoint option \<Rightarrow> keypoint option \<Rightarrow>
   features \<Rightarrow> py_error + features"
where
  "set_vertex_angle key p1 p2 p3 fs =
     (case (p1, p2, p3) of
        (Some a, Some b, Some c) \<Rightarrow>
          bind_err (calculate_angle (pt a) (pt b) (pt c)) (\<lambda>angle.
          Inr (AList.update key (Some angle) fs))
      | _ \<Rightarrow> Inr fs)"

definition set_asymmetry_score ::
  "keypoint option \<Rightarrow> keypoint option \<Rightarrow> features \<Rightarrow> py_error + features"
where
  "set_asymmetry_score left_shoulder right_shoulder fs =
     (case (left_shoulder, right_shoulder) of
        (Some ls, Some rs) \<Rightarrow>
          (let asymmetry = \<bar>kp_y ls - kp_y rs\<bar>
           in Inr (AList.update ''asymmetry_score'' (Some (asymmetry * 100)) fs))
      | _ \<Rightarrow> Inr fs)"

definition set_reach_distance_ratio ::
  "keypoint option \<Rightarrow> keypoint option \<Rightarrow> keypoint option \<Rightarrow> features \<Rightarrow> py_error + features"
where
  "set_reach_distance_ratio left_shoulder right_shoulder left_wrist fs =
     (case (left_shoulder, right_shoulder, left_wrist) of
        (Some ls, Some rs, Some lw) \<Rightarrow>
          (let shoulder_width = \<bar>kp_x ls - kp_x rs\<bar>;
               reach_distance = \<bar>kp_x lw - kp_x ls\<bar>
           in if 0 < shoulder_width
              then bind_err (checked_div reach_distance shoulder_width) (\<lambda>ratio.
                   Inr (AList.update ''reach_distance_ratio'' (Some ratio) fs))
              else Inr fs)
      | _ \<Rightarrow> Inr fs)"

definition calculate_ergonomic_features :: "keypoint list \<Rightarrow> py_error + features" where
  "calculate_ergonomic_features keypoints =
     (let nose = get_keypoint_by_name keypoints ''nose'';
          left_shoulder = get_keypoint_by_name keypoints ''left_shoulder'';
          right_shoulder = get_keypoint_by_name keypoints ''right_shoulder'';
          left_elbow = get_keypoint_by_name keypoints ''left_elbow'';
          right_elbow = get_keypoint_by_name keypoints ''right_elbow'';
          left_wrist = get_keypoint_by_name keypoints ''left_wrist'';
          right_wrist = get_keypoint_by_name keypoints ''right_wrist'';
          left_hip = get_keypoint_by_name keypoints ''left_hip'';
          right_hip = get_keypoint_by_name keypoints ''right_hip''
      in bind_err (set_neck_flexion nose left_shoulder right_shoulder initial_features) (\<lambda>fs.
         bind_err (set_trunk_flexion left_shoulder left_hip right_shoulder right_hip fs) (\<lambda>fs.
         bind_err (set_vertex_angle ''left_shoulder_abduction''
                     left_hip left_shoulder left_elbow fs) (\<lambda>fs.
         bind_err (set_vertex_angle ''right_shoulder_abduction''
                     right_hip right_shoulder right_elbow fs) (\<lambda>fs.
         bind_err (set_vertex_angle ''left_elbow_flexion''
                     left_shoulder left_elbow left_wrist fs) (\<lambda>fs.
         bind_err (set_vertex_angle ''right_elbow_flexion''
                     right_shoulder right_elbow right_wrist fs) (\<lambda>fs.
         bind_err (set_asymmetry_score left_shoulder right_shoulder fs) (\<lambda>fs.
         set_reach_distance_ratio left_shoulder right_shoulder left_wrist fs))))))))"

section \<open>Pipeline orchestrator (ml/pose\_pipeline.py)\<close>

text \<open>\<open>preprocess_image\<close> and \<open>run_inference\<close> call the image library and the inference
  session; they are parameters here.  Each may raise, and each may read and change state
  outside the pipeline (the file system, the session, the latency metrics), which is the
  type \<open>'s\<close>, threaded through the calls.\<close>

type_synonym ('s, 'img) preprocess = "'s \<Rightarrow> string \<Rightarrow> (py_error + 'img) \<times> 's"
type_synonym ('s, 'img) inference = "'s \<Rightarrow> 'img \<Rightarrow> (py_error + ndarray) \<times> 's"

text \<open>The dict \<open>process_image\<close> returns; \<open>error\<close> holds the exception whose text the source
  stores, and is \<open>None\<close> when the dict has no such key.\<close>

record process_result =
  success :: bool
  error :: "py_error option"
  keypoints :: "keypoint list"
  ergonomic_features :: features
  num_keypoints_detected :: nat

definition failure_result :: "py_error \<Rightarrow> process_result" where
  "failure_result e =
     \<lparr> success = False, error = Some e, keypoints = [], ergonomic_features = [],
       num_keypoints_detected = 0 \<rparr>"

text \<open>The body of the \<open>try\<close> block: the first stage that raises ends it.\<close>

definition process_image_try ::
  "('s, 'img) preprocess \<Rightarrow> ('s, 'img) inference \<Rightarrow> pose_config \<Rightarrow> 's \<Rightarrow> string \<Rightarrow>
   (py_error + process_result) \<times> 's"
where
  "process_image_try preprocess_image run_inference cfg s image_path =
     (case preprocess_image s image_path of
        (Inl e, s1) \<Rightarrow> (Inl e, s1)
      | (Inr preprocessed, s1) \<Rightarrow>
          (case run_inference s1 preprocessed of
             (Inl e, s2) \<Rightarrow> (Inl e, s2)
           | (Inr model_output, s2) \<Rightarrow>
               (bind_err (extract_keypoints cfg model_output) (\<lambda>kps.
                bind_err (calculate_ergonomic_features kps) (\<lambda>fs.
                Inr \<lparr> success = True, error = None, keypoints = kps,
                      ergonomic_features = fs,
                      num_keypoints_detected = length kps \<rparr>)), s2)))"

definition process_image ::
  "('s, 'img) preprocess \<Rightarrow> ('s, 'img) inference \<Rightarrow> pose_config \<Rightarrow> 's \<Rightarrow> string \<Rightarrow>
   process_result \<times> 's"
where
  "process_image preprocess_image run_inference cfg s image_path =
     (case process_image_try preprocess_image run_inference cfg s image_path of
        (Inr result, s') \<Rightarrow> (result, s')
      | (Inl e, s') \<Rightarrow> (failure_result e, s'))"

fun process_batch_loop ::
  "('s, 'img) preprocess \<Rightarrow> ('s, 'img) inference \<Rightarrow> pose_config \<Rightarrow> 's \<Rightarrow> string list \<Rightarrow>
   process_result list \<Rightarrow> process_result list \<times> 's"
where
  "process_batch_loop pre infer cfg s [] results = (results, s)"
| "process_batch_loop pre infer cfg s (image_path # rest) results =
     (case process_image pre infer cfg s image_path of
        (result, s') \<Rightarrow> process_batch_loop pre infer cfg s' rest (results @ [result]))"

definition process_batch ::
  "('s, 'img) preprocess \<Rightarrow> ('s, 'img) inference \<Rightarrow> pose_config \<Rightarrow> 's \<Rightarrow> string list \<Rightarrow>
   process_result list \<times> 's"
where
  "process_batch pre infer cfg s image_paths = process_batch_loop pre infer cfg s image_paths []"

section \<open>Reference formulas and sample inputs\<close>

text \<open>The formulas of the specification, written after its words, to compare the code
  with; and the inputs the sample evaluations below use.\<close>

text \<open>A feature dict as the extractor returns it when only the shoulders and the hips were
  detected: the trunk angle and the asymmetry are known, the other six keys are \<open>None\<close>.\<close>

definition sample_features :: features where
  "sample_features =
     [(''neck_flexion'', None), (''trunk_flexion'', Some 50),
      (''left_shoulder_abduction'', None), (''right_shoulder_abduction'', None),
      (''left_elbow_flexion'', None), (''right_elbow_flexion'', None),
      (''asymmetry_score'', Some 0), (''reach_distance_ratio'', None)]"

text \<open>A feature dict whose ordinals are 2, 3, 2 and 3: with the default weights the exact
  weighted sum is 2, and the float sum is the binary64 number just below 2.\<close>

definition rounding_features :: features where
  "rounding_features =
     [(''neck_flexion'', Some 30), (''trunk_flexion'', Some 50),
      (''left_shoulder_abduction'', Some 60), (''right_shoulder_abduction'', None),
      (''left_elbow_flexion'', Some 120), (''right_elbow_flexion'', None),
      (''asymmetry_score'', Some 0), (''reach_distance_ratio'', None)]"

text \<open>A scorer whose neck weight is \<open>2 ** 1023\<close>, the largest power of two a float
  holds: twice that weight is infinite.  The other tables and weights are the defaults.\<close>

definition overflow_scorer :: scorer where
  "overflow_scorer =
     \<lparr> ergonomic_thresholds = ergonomic_thresholds default_scorer,
       reba_weights = map_of [(''neck'', 2 ^ 1023)],
       risk_levels = risk_levels default_scorer \<rparr>"

text \<open>Arm ordinal: from the average of both sides if both are observed, from whichever side
  is observed otherwise, 0 if neither is.  The average is the float sum, halved.\<close>

definition arm_ordinal :: "real option \<Rightarrow> real option \<Rightarrow> thresholds \<Rightarrow> int" where
  "arm_ordinal left right th =
     (if left \<noteq> None \<and> right \<noteq> None
      then score_angle_float
             (Some (float_half (float_add (Finite (the left)) (Finite (the right))))) th
      else if left \<noteq> None then score_angle left th
      else if right \<noteq> None then score_angle right th
      else 0)"

definition joint_ordinals :: "scorer \<Rightarrow> features \<Rightarrow> int list" where
  "joint_ordinals sc fs =
     [score_angle (dict_get fs ''neck_flexion'') (neck_thresholds sc),
      score_angle (dict_get fs ''trunk_flexion'') (trunk_thresholds sc),
      arm_ordinal (dict_get fs ''left_shoulder_abduction'')
                  (dict_get fs ''right_shoulder_abduction'') (shoulder_thresholds sc),
      arm_ordinal (dict_get fs ''left_elbow_flexion'')
                  (dict_get fs ''right_elbow_flexion'') (elbow_thresholds sc)]"

definition joint_weights :: "scorer \<Rightarrow> real list" where
  "joint_weights sc =
     [get_or (reba_weights sc) ''neck'' (round_binary64 (20 / 100)),
      get_or (reba_weights sc) ''trunk'' (round_binary64 (25 / 100)),
      get_or (reba_weights sc) ''upper_arm'' (round_binary64 (20 / 100)),
      get_or (reba_weights sc) ''lower_arm'' (round_binary64 (15 / 100))]"

text \<open>The weighted sum: the float products of ordinal and weight, added from left to
  right.\<close>

definition weighted_sum :: "scorer \<Rightarrow> features \<Rightarrow> pyfloat" where
  "weighted_sum sc fs =
     (case map (\<lambda>(ordinal, weight). int_times_float ordinal weight)
               (zip (joint_ordinals sc fs) (joint_weights sc)) of
        [] \<Rightarrow> Finite 0
      | term # terms \<Rightarrow> foldl float_add term terms)"

text \<open>The final score as a rounded and clamped value, and the two RULA groups.\<close>

definition claimed_final :: "real \<Rightarrow> int" where
  "claimed_final x = max 0 (min 100 (round x))"

definition rula_groups :: "scorer \<Rightarrow> features \<Rightarrow> int \<times> int" where
  "rula_groups sc fs =
     (score_angle (dict_get fs ''left_shoulder_abduction'') (shoulder_thresholds sc) +
      score_angle (dict_get fs ''left_elbow_flexion'') (elbow_thresholds sc),
      score_angle (dict_get fs ''neck_flexion'') (neck_thresholds sc) +
      score_angle (dict_get fs ''trunk_flexion'') (trunk_thresholds sc))"

definition claimed_rula :: "scorer \<Rightarrow> features \<Rightarrow> int" where
  "claimed_rula sc fs =
     (case rula_groups sc fs of
        (group_a, group_b) \<Rightarrow> max 0 (min 100 (round (of_int (group_a + group_b) * (125 / 10 :: real)))))"

text \<open>A float that is not negative: a finite one that is not, or plus infinity.\<close>

fun float_nonneg :: "pyfloat \<Rightarrow> bool" where
  "float_nonneg (Finite x) = (0 \<le> x)"
| "float_nonneg PosInf = True"
| "float_nonneg NegInf = False"
| "float_nonneg NaN = False"

text \<open>The keypoint the decoder is to build for tensor index \<open>idx\<close>: the id is the index, the
  name is the supplied one or \<open>keypoint_<id>\<close> when the name list is too short, and the row
  holds y, x and the confidence in this order.\<close>

definition expected_keypoint :: "string list \<Rightarrow> ndarray \<Rightarrow> nat \<Rightarrow> keypoint" where
  "expected_keypoint names a idx =
     \<lparr> kp_id = idx,
       kp_name = (if idx < length names then names ! idx else ''keypoint_'' @ str_nat idx),
       kp_x = item a [0, idx, 1], kp_y = item a [0, idx, 0],
       kp_confidence = item a [0, idx, 2] \<rparr>"

text \<open>A \<open>[1, 3, 3]\<close> tensor of dtype \<open>float64\<close> with confidences 0.9, 0.1 and 0.5; a rank-3
  tensor whose rows have two entries; a rank-2 tensor; and a configuration naming two
  keypoints.\<close>

definition sample_tensor :: ndarray where
  "sample_tensor =
     \<lparr> shape = [1, 3, 3],
       item = (\<lambda>ix. if ix = [0, 0, 2] then 9 / 10 else if ix = [0, 1, 2] then 1 / 10
                    else if ix = [0, 2, 2] then 1 / 2 else 1 / 4),
       as_dtype = (\<lambda>v. v) \<rparr>"

definition short_row_tensor :: ndarray where
  "short_row_tensor = \<lparr> shape = [1, 1, 2], item = (\<lambda>ix. 1), as_dtype = (\<lambda>v. v) \<rparr>"

definition rank2_tensor :: ndarray where
  "rank2_tensor = \<lparr> shape = [17, 3], item = (\<lambda>ix. 1), as_dtype = (\<lambda>v. v) \<rparr>"

definition sample_pose_config :: pose_config where
  "sample_pose_config =
     \<lparr> confidence_threshold = Some (3 / 10), keypoint_names = Some [''nose'', ''left_eye''] \<rparr>"

text \<open>A \<open>float32\<close> tensor under NumPy 2 with one keypoint, whose confidence is the
  \<open>float32\<close> number 0.300000011920929, and a configuration whose threshold 0.30000002 lies
  above it.\<close>

definition float32_tensor :: ndarray where
  "float32_tensor =
     \<lparr> shape = [1, 1, 3],
       item = (\<lambda>ix. if ix = [0, 0, 2] then 10066330 / 2 ^ 25 else 1 / 2),
       as_dtype = round_binary32 \<rparr>"

definition float32_pose_config :: pose_config where
  "float32_pose_config =
     \<lparr> confidence_threshold = Some (30000002 / 100000000), keypoint_names = Some [''nose''] \<rparr>"

text \<open>The features as the specification gives them, each a function of the keypoints it
  needs: \<open>None\<close> when one of them is missing.\<close>

definition vertex_angle :: "point \<Rightarrow> point \<Rightarrow> point \<Rightarrow> real" where
  "vertex_angle p1 p2 p3 =
     (let v1 = (fst p1 - fst p2, snd p1 - snd p2);
          v2 = (fst p3 - fst p2, snd p3 - snd p2)
      in degrees (arccos (clip (dot v1 v2 / (norm2 v1 * norm2 v2 + 1 / 10 ^ 6)) (- 1) 1)))"

definition neck_flexion_of ::
  "keypoint option \<Rightarrow> keypoint option \<Rightarrow> keypoint option \<Rightarrow> real option" where
  "neck_flexion_of nose left_shoulder right_shoulder =
     (case (nose, left_shoulder, right_shoulder) of
        (Some n, Some ls, Some rs) \<Rightarrow>
          Some (degrees \<bar>arctan2 (kp_y n - (kp_y ls + kp_y rs) / 2)
                                 (kp_x n - (kp_x ls + kp_x rs) / 2)\<bar>)
      | _ \<Rightarrow> None)"

definition trunk_flexion_of ::
  "keypoint option \<Rightarrow> keypoint option \<Rightarrow> keypoint option \<Rightarrow> keypoint option \<Rightarrow> real option"
where
  "trunk_flexion_of left_shoulder left_hip right_shoulder right_hip =
     (case (left_shoulder, left_hip, right_shoulder, right_hip) of
        (Some ls, Some lh, Some rs, Some rh) \<Rightarrow>
          Some (degrees \<bar>arctan2 ((kp_y ls + kp_y rs) / 2 - (kp_y lh + kp_y rh) / 2)
                                 ((kp_x ls + kp_x rs) / 2 - (kp_x lh + kp_x rh) / 2) - pi / 2\<bar>)
      | _ \<Rightarrow> None)"

definition vertex_angle_of ::
  "keypoint option \<Rightarrow> keypoint option \<Rightarrow> keypoint option \<Rightarrow> real option" where
  "vertex_angle_of p1 p2 p3 =
     (case (p1, p2, p3) of
        (Some a, Some b, Some c) \<Rightarrow> Some (vertex_angle (pt a) (pt b) (pt c))
      | _ \<Rightarrow> None)"

definition asymmetry_of :: "keypoint option \<Rightarrow> keypoint option \<Rightarrow> real option" where
  "asymmetry_of left_shoulder right_shoulder =
     (case (left_shoulder, right_shoulder) of
        (Some ls, Some rs) \<Rightarrow> Some (\<bar>kp_y ls - kp_y rs\<bar> * 100)
      | _ \<Rightarrow> None)"

definition reach_ratio_of ::
  "keypoint option \<Rightarrow> keypoint option \<Rightarrow> keypoint option \<Rightarrow> real option" where
  "reach_ratio_of left_shoulder right_shoulder left_wrist =
     (case (left_shoulder, right_shoulder, left_wrist) of
        (Some ls, Some rs, Some lw) \<Rightarrow>
          if \<bar>kp_x ls - kp_x rs\<bar> = 0 then None
          else Some (\<bar>kp_x lw - kp_x ls\<bar> / \<bar>kp_x ls - kp_x rs\<bar>)
      | _ \<Rightarrow> None)"

text \<open>The whole feature dict, from the lookup of keypoints by name.\<close>

definition expected_features :: "(string \<Rightarrow> keypoint option) \<Rightarrow> features" where
  "expected_features kp =
     [(''neck_flexion'',
         neck_flexion_of (kp ''nose'') (kp ''left_shoulder'') (kp ''right_shoulder'')),
      (''trunk_flexion'',
         trunk_flexion_of (kp ''left_shoulder'') (kp ''left_hip'')
                          (kp ''right_shoulder'') (kp ''right_hip'')),
      (''left_shoulder_abduction'',
         vertex_angle_of (kp ''left_hip'') (kp ''left_shoulder'') (kp ''left_elbow'')),
      (''right_shoulder_abduction'',
         vertex_angle_of (kp ''right_hip'') (kp ''right_shoulder'') (kp ''right_elbow'')),
      (''left_elbow_flexion'',
         vertex_angle_of (kp ''left_shoulder'') (kp ''left_elbow'') (kp ''left_wrist'')),
      (''right_elbow_flexion'',
         vertex_angle_of (kp ''right_shoulder'') (kp ''right_elbow'') (kp ''right_wrist'')),
      (''asymmetry_score'', asymmetry_of (kp ''left_shoulder'') (kp ''right_shoulder'')),
      (''reach_distance_ratio'',
         reach_ratio_of (kp ''left_shoulder'') (kp ''right_shoulder'') (kp ''left_wrist''))]"

text \<open>The keypoints each feature needs, and the one further condition of the reach ratio.\<close>

definition required_keypoints :: "string \<Rightarrow> string list" where
  "required_keypoints feature =
     (if feature = ''neck_flexion'' then [''nose'', ''left_shoulder'', ''right_shoulder'']
      else if feature = ''trunk_flexion''
        then [''left_shoulder'', ''left_hip'', ''right_shoulder'', ''right_hip'']
      else if feature = ''left_shoulder_abduction''
        then [''left_shoulder'', ''left_elbow'', ''left_hip'']
      else if feature = ''right_shoulder_abduction''
        then [''right_shoulder'', ''right_elbow'', ''right_hip'']
      else if feature = ''left_elbow_flexion''
        then [''left_shoulder'', ''left_elbow'', ''left_wrist'']
      else if feature = ''right_elbow_flexion''
        then [''right_shoulder'', ''right_elbow'', ''right_wrist'']
      else if feature = ''asymmetry_score'' then [''left_shoulder'', ''right_shoulder'']
      else if feature = ''reach_distance_ratio''
        then [''left_shoulder'', ''right_shoulder'', ''left_wrist'']
      else [])"

definition shoulder_width_zero :: "(string \<Rightarrow> keypoint option) \<Rightarrow> bool" where
  "shoulder_width_zero kp =
     (case (kp ''left_shoulder'', kp ''right_shoulder'') of
        (Some ls, Some rs) \<Rightarrow> \<bar>kp_x ls - kp_x rs\<bar> = 0
      | _ \<Rightarrow> False)"

text \<open>Storing a value under a key when there is one, as each block of the extractor does.\<close>

definition put :: "string \<Rightarrow> real option \<Rightarrow> features \<Rightarrow> features" where
  "put key v fs = (case v of None \<Rightarrow> fs | Some x \<Rightarrow> AList.update key (Some x) fs)"

text \<open>The nose and both shoulders, with the coordinates of the first scenario of the
  specification.\<close>

definition scenario_keypoints :: "keypoint list" where
  "scenario_keypoints =
     [\<lparr>kp_id = 0, kp_name = ''nose'', kp_x = 5 / 10, kp_y = 2 / 10, kp_confidence = 9 / 10\<rparr>,
      \<lparr>kp_id = 5, kp_name = ''left_shoulder'', kp_x = 4 / 10, kp_y = 35 / 100,
        kp_confidence = 85 / 100\<rparr>,
      \<lparr>kp_id = 6, kp_name = ''right_shoulder'', kp_x = 6 / 10, kp_y = 35 / 100,
        kp_confidence = 85 / 100\<rparr>]"

text \<open>Stand-ins for the two external stages, over a state that counts inference runs: the
  image \<open>missing.jpg\<close> cannot be read, the session fails on \<open>crash.jpg\<close>, and it returns
  a tensor with short rows for \<open>short.jpg\<close>.\<close>

definition sample_preprocess :: "(nat, string) preprocess" where
  "sample_preprocess s image_path =
     (if image_path = ''missing.jpg'' then (Inl (External ''Failed to load image''), s)
      else (Inr image_path, s))"

definition sample_inference :: "(nat, string) inference" where
  "sample_inference s img =
     (if img = ''crash.jpg'' then (Inl (External ''Model not loaded''), s)
      else if img = ''short.jpg'' then (Inr short_row_tensor, s + 1)
      else (Inr sample_tensor, s + 1))"

section \<open>Properties of binary rounding\<close>

lemma py_round_of_int: "py_round (of_int z) = z"
  by (simp add: py_round_def)

lemma py_round_nonneg: "0 \<le> x \<Longrightarrow> 0 \<le> py_round x"
  by (simp add: py_round_def Let_def)

lemma ulp_pos: "0 < ulp p emin x"
  by (simp add: ulp_def)

lemma two_powi_powr: "(2 :: real) powi k = 2 powr of_int k"
  by (simp add: powr_real_of_int')

lemma binade_exact_bound:
  assumes x: "x = of_int m * 2 powi e" and m0: "m \<noteq> 0" and m: "\<bar>m\<bar> < 2 ^ p"
    and e: "emin - (int p - 1) \<le> e"
  shows "binade emin x - (int p - 1) \<le> e"
proof -
  have pos: "0 < \<bar>x\<bar>" using x m0 by simp
  have ax: "\<bar>x\<bar> = of_int \<bar>m\<bar> * 2 powi e" using x by (simp add: abs_mult)
  have "(of_int \<bar>m\<bar> :: real) < of_int (2 ^ p)" using m by (simp only: of_int_less_iff)
  then have "(of_int \<bar>m\<bar> :: real) < 2 powi (int p)" by simp
  then have "\<bar>x\<bar> < 2 powi (int p) * 2 powi e"
    unfolding ax by simp
  then have lt: "\<bar>x\<bar> < 2 powr of_int (int p + e)"
    by (simp add: two_powi_powr powr_add powr_realpow)
  have "(2 :: real) powr of_int \<lfloor>log 2 \<bar>x\<bar>\<rfloor> \<le> 2 powr log 2 \<bar>x\<bar>"
    by simp
  also have "\<dots> = \<bar>x\<bar>" using pos by simp
  finally have "(2 :: real) powr of_int \<lfloor>log 2 \<bar>x\<bar>\<rfloor> \<le> \<bar>x\<bar>" .
  from this lt have "(2 :: real) powr of_int \<lfloor>log 2 \<bar>x\<bar>\<rfloor> < 2 powr of_int (int p + e)"
    by (rule le_less_trans)
  then have "(of_int \<lfloor>log 2 \<bar>x\<bar>\<rfloor> :: real) < of_int (int p + e)" by simp
  then have "\<lfloor>log 2 \<bar>x\<bar>\<rfloor> < int p + e" by (simp only: of_int_less_iff)
  with e show ?thesis by (simp add: binade_def)
qed

lemma round_binary_exact:
  assumes x: "x = of_int m * 2 powi e" and m: "\<bar>m\<bar> < 2 ^ p"
    and e: "emin - (int p - 1) \<le> e"
  shows "round_binary p emin x = x"
proof (cases "m = 0")
  case True
  then show ?thesis using x by (simp add: round_binary_def)
next
  case False
  let ?k = "binade emin x - (int p - 1)"
  have k: "?k \<le> e" by (rule binade_exact_bound [OF x False m e])
  define n where "n = nat (e - ?k)"
  have e_eq: "e = ?k + int n" using k by (simp add: n_def)
  have "(2 :: real) powi e = 2 powi ?k * 2 powi (int n)"
    by (subst e_eq) (simp only: power_int_add [of "2 :: real", simplified])
  then have pe: "(2 :: real) powi e = ulp p emin x * 2 ^ n" by (simp add: ulp_def)
  have x0: "x \<noteq> 0" using x False by simp
  have xu: "x = of_int (m * 2 ^ n) * ulp p emin x"
    by (subst x) (simp add: pe)
  have u0: "ulp p emin x \<noteq> 0" using ulp_pos [of p emin x] by simp
  have q: "x / ulp p emin x = of_int (m * 2 ^ n)"
    by (subst xu) (simp only: nonzero_mult_div_cancel_right [OF u0])
  have "round_binary p emin x = of_int (py_round (x / ulp p emin x)) * ulp p emin x"
    using x0 by (simp add: round_binary_def)
  also have "\<dots> = of_int (m * 2 ^ n) * ulp p emin x"
    by (simp only: q py_round_of_int)
  also have "\<dots> = x" by (rule xu [symmetric])
  finally show ?thesis .
qed

lemma round_binary_nonneg: "0 \<le> x \<Longrightarrow> 0 \<le> round_binary p emin x"
  using ulp_pos [of p emin x] by (simp add: round_binary_def py_round_nonneg)

lemma binade_eq:
  assumes "2 powi k \<le> \<bar>x\<bar>" and "\<bar>x\<bar> < 2 powi (k + 1)" and "emin \<le> k"
  shows "binade emin x = k"
proof -
  have pos: "0 < \<bar>x\<bar>"
    using assms(1) by (rule less_le_trans [rotated]) simp
  have "\<lfloor>log 2 \<bar>x\<bar>\<rfloor> = k"
    using assms(1,2) unfolding floor_log_eq_powr_iff [OF pos, of 2 k, simplified]
    by (simp add: two_powi_powr)
  with assms(3) show ?thesis by (simp add: binade_def)
qed

lemma fl_exact:
  assumes "x = of_int m * 2 powi e" and "\<bar>m\<bar> < 2 ^ 53" and "- 1074 \<le> e"
    and "\<bar>x\<bar> \<le> max_binary64"
  shows "fl x = Finite x"
proof -
  have "round_binary64 x = x"
    unfolding round_binary64_def by (rule round_binary_exact [OF assms(1,2)]) (use assms(3) in simp)
  with assms(4) show ?thesis by (auto simp: fl_def Let_def)
qed

lemma fl_0: "fl 0 = Finite 0"
  by (simp add: fl_def round_binary64_def round_binary_def max_binary64_def)

lemma max_binary64_pos: "0 < max_binary64"
  by (simp add: max_binary64_def)

lemma fl_nonneg: "0 \<le> x \<Longrightarrow> float_nonneg (fl x)"
  using round_binary_nonneg [of x 53 "- 1022"] max_binary64_pos
  by (simp add: fl_def Let_def round_binary64_def)

lemma float_add_nonneg: "float_nonneg a \<Longrightarrow> float_nonneg b \<Longrightarrow> float_nonneg (float_add a b)"
  by (cases a; cases b) (simp_all add: fl_nonneg)

lemma float_mul_nonneg_pos:
  "float_nonneg a \<Longrightarrow> 0 < y \<Longrightarrow> float_nonneg (float_mul a (Finite y))"
  by (cases a) (simp_all add: fl_nonneg)

lemma int_times_float_nonneg: "0 \<le> n \<Longrightarrow> 0 \<le> w \<Longrightarrow> float_nonneg (int_times_float n w)"
  by (simp add: int_times_float_def fl_nonneg)

lemma float_int_nonneg: "float_nonneg a \<Longrightarrow> float_int a = Inr k \<Longrightarrow> 0 \<le> k"
  by (cases a) (auto simp: py_int_def)

lemma float_int_Inr: "float_int a = Inr k \<Longrightarrow> \<exists>x. a = Finite x \<and> k = py_int x"
  by (cases a) auto

lemma round_binary_eval:
  assumes lo: "2 powi k \<le> \<bar>x\<bar>" and hi: "\<bar>x\<bar> < 2 powi (k + 1)" and emin: "emin \<le> k"
    and j: "int j = int p - 1 - k"
    and n: "py_round (x * 2 ^ j) = n"
  shows "round_binary p emin x = of_int n / 2 ^ j"
proof -
  have x0: "x \<noteq> 0"
  proof
    assume "x = 0"
    with lo have a: "(2 :: real) powi k \<le> 0" by simp
    have b: "(0 :: real) < 2 powi k" by simp
    show False using leD [OF a] b by (rule notE)
  qed
  have "k - (int p - 1) = - int j" using j by simp
  then have "ulp p emin x = 2 powi (- int j)"
    by (simp add: ulp_def binade_eq [OF lo hi emin])
  then have u: "ulp p emin x = 1 / 2 ^ j"
    by (simp add: power_int_minus_divide)
  show ?thesis
    using x0 n by (simp add: round_binary_def u)
qed

lemma round_binary32_threshold:
  "round_binary32 (30000002 / 100000000) = 10066330 / 2 ^ 25"
proof -
  have lo: "(2 :: real) powi - 2 \<le> \<bar>30000002 / 100000000\<bar>"
    by (simp add: power_int_minus_divide)
  have hi: "\<bar>30000002 / 100000000 :: real\<bar> < 2 powi (- 2 + 1)"
    by (simp add: power_int_minus_divide)
  have n: "py_round (30000002 / 100000000 * 2 ^ 25) = 10066330"
    by (simp add: py_round_def Let_def)
  from round_binary_eval [OF lo hi _ _ n, of "- 126" 24] show ?thesis
    by (simp add: round_binary32_def)
qed

lemma round_one_fifth: "round_binary64 (1 / 5) = 7205759403792794 / 2 ^ 55"
proof -
  have lo: "(2 :: real) powi - 3 \<le> \<bar>1 / 5\<bar>"
    by (simp add: power_int_minus_divide)
  have hi: "\<bar>1 / 5 :: real\<bar> < 2 powi (- 3 + 1)"
    by (simp add: power_int_minus_divide)
  have n: "py_round (1 / 5 * 2 ^ 55) = 7205759403792794"
    by (simp add: py_round_def Let_def)
  from round_binary_eval [OF lo hi _ _ n, of "- 1022" 53] show ?thesis
    by (simp add: round_binary64_def)
qed

lemma round_three_twentieths: "round_binary64 (3 / 20) = 5404319552844595 / 2 ^ 55"
proof -
  have lo: "(2 :: real) powi - 3 \<le> \<bar>3 / 20\<bar>"
    by (simp add: power_int_minus_divide)
  have hi: "\<bar>3 / 20 :: real\<bar> < 2 powi (- 3 + 1)"
    by (simp add: power_int_minus_divide)
  have n: "py_round (3 / 20 * 2 ^ 55) = 5404319552844595"
    by (simp add: py_round_def Let_def)
  from round_binary_eval [OF lo hi _ _ n, of "- 1022" 53] show ?thesis
    by (simp add: round_binary64_def)
qed

lemma fl_eval:
  assumes lo: "2 powi k \<le> \<bar>x\<bar>" and hi: "\<bar>x\<bar> < 2 powi (k + 1)" and emin: "- 1022 \<le> k"
    and j: "int j = 52 - k"
    and n: "py_round (x * 2 ^ j) = n"
    and b: "\<bar>of_int n / 2 ^ j\<bar> \<le> max_binary64"
  shows "fl x = Finite (of_int n / 2 ^ j)"
proof -
  have "round_binary64 x = of_int n / 2 ^ j"
    unfolding round_binary64_def using j by (intro round_binary_eval [OF lo hi emin _ n]) simp
  moreover from b have "of_int n / 2 ^ j \<le> max_binary64" "- (of_int n / 2 ^ j) \<le> max_binary64"
    by (simp_all only: abs_le_iff)
  ultimately show ?thesis by (simp add: fl_def Let_def not_less [symmetric])
qed

section \<open>Properties of the scorer\<close>

lemmas threshold_defs =
  neck_thresholds_def trunk_thresholds_def shoulder_thresholds_def elbow_thresholds_def

lemmas eval_defs =
  threshold_defs default_scorer_def dict_get_def get_or_def score_angle_def
  py_int_def calculate_confidence_def Let_def

lemma score_angle_nonneg: "0 \<le> score_angle a th"
  by (simp add: score_angle_def split: option.splits)

lemma score_angle_float_nonneg: "0 \<le> score_angle_float a th"
  by (simp add: score_angle_float_def split: option.splits)

lemma score_angle_float_Finite: "score_angle_float (Some (Finite a)) th = score_angle (Some a) th"
  by (simp add: score_angle_float_def score_angle_def)

lemma arm_ordinal_avg_sides: "score_angle_float (avg_sides l r) th = arm_ordinal l r th"
  by (cases l; cases r)
     (simp_all add: avg_sides_def arm_ordinal_def score_angle_float_Finite,
      simp add: score_angle_float_def)

lemma arm_ordinal_nonneg: "0 \<le> arm_ordinal l r th"
  by (simp add: arm_ordinal_def score_angle_nonneg score_angle_float_nonneg)

lemma weighted_sum_unfold:
  "weighted_sum sc fs =
     float_add
       (float_add
         (float_add
           (int_times_float (score_angle (dict_get fs ''neck_flexion'') (neck_thresholds sc))
              (get_or (reba_weights sc) ''neck'' (round_binary64 (20 / 100))))
           (int_times_float (score_angle (dict_get fs ''trunk_flexion'') (trunk_thresholds sc))
              (get_or (reba_weights sc) ''trunk'' (round_binary64 (25 / 100)))))
         (int_times_float
            (arm_ordinal (dict_get fs ''left_shoulder_abduction'')
               (dict_get fs ''right_shoulder_abduction'') (shoulder_thresholds sc))
            (get_or (reba_weights sc) ''upper_arm'' (round_binary64 (20 / 100)))))
       (int_times_float
          (arm_ordinal (dict_get fs ''left_elbow_flexion'')
             (dict_get fs ''right_elbow_flexion'') (elbow_thresholds sc))
          (get_or (reba_weights sc) ''lower_arm'' (round_binary64 (15 / 100))))"
  by (simp add: weighted_sum_def joint_ordinals_def joint_weights_def)

lemma calculate_reba_score_eq:
  "calculate_reba_score sc fs =
     bind_err (float_int (float_mul (weighted_sum sc fs) (Finite 25))) (\<lambda>score.
       Inr \<lparr> reba_score = min score 100,
             neck_score = joint_ordinals sc fs ! 0,
             trunk_score = joint_ordinals sc fs ! 1,
             upper_arm_score = joint_ordinals sc fs ! 2,
             lower_arm_score = joint_ordinals sc fs ! 3,
             reba_confidence = calculate_confidence fs \<rparr>)"
  by (simp add: calculate_reba_score_def Let_def weighted_sum_unfold arm_ordinal_avg_sides
        joint_ordinals_def)

lemma weighted_sum_nonneg:
  assumes "list_all (\<lambda>w. 0 \<le> w) (joint_weights sc)"
  shows "float_nonneg (weighted_sum sc fs)"
  using assms unfolding weighted_sum_unfold
  by (intro float_add_nonneg int_times_float_nonneg)
     (simp_all add: joint_weights_def score_angle_nonneg arm_ordinal_nonneg)

text \<open>
  Claim C3, as amended.  For every scorer configuration and every feature dict:
  \<open>calculate_reba_score\<close> raises exactly when \<open>int(weighted_sum * 25)\<close> does, which is when
  the float product is infinite or NaN.  Otherwise the REBA score is that product
  truncated towards zero, not rounded, and capped at 100; the four sub-scores are the
  ordinals of neck, trunk, upper arm and lower arm, each arm ordinal taken from the average
  of both sides if both are observed, from the one observed side otherwise, and 0 if
  neither is.  The weighted sum is the sum of ordinal times weight, computed in binary64
  from left to right.  The code has no lower clamp: the score is at least 0 when the four
  weights are non-negative.
\<close>

theorem reba_score_truncates:
  "(\<forall>e. (calculate_reba_score sc fs = Inl e) =
         (float_int (float_mul (weighted_sum sc fs) (Finite 25)) = Inl e)) \<and>
   (\<forall>r. calculate_reba_score sc fs = Inr r \<longrightarrow>
      (\<exists>x. float_mul (weighted_sum sc fs) (Finite 25) = Finite x \<and>
           reba_score r = min (py_int x) 100) \<and>
      [neck_score r, trunk_score r, upper_arm_score r, lower_arm_score r] =
        joint_ordinals sc fs \<and>
      reba_score r \<le> 100 \<and>
      (list_all (\<lambda>w. 0 \<le> w) (joint_weights sc) \<longrightarrow> 0 \<le> reba_score r))"
proof (intro conjI allI impI)
  fix e
  show "(calculate_reba_score sc fs = Inl e) =
        (float_int (float_mul (weighted_sum sc fs) (Finite 25)) = Inl e)"
    by (simp add: calculate_reba_score_eq bind_err_def split: sum.splits)
next
  fix r
  assume r: "calculate_reba_score sc fs = Inr r"
  then obtain k where k: "float_int (float_mul (weighted_sum sc fs) (Finite 25)) = Inr k"
    and rk: "r = \<lparr> reba_score = min k 100,
             neck_score = joint_ordinals sc fs ! 0,
             trunk_score = joint_ordinals sc fs ! 1,
             upper_arm_score = joint_ordinals sc fs ! 2,
             lower_arm_score = joint_ordinals sc fs ! 3,
             reba_confidence = calculate_confidence fs \<rparr>"
    by (auto simp: calculate_reba_score_eq bind_err_def split: sum.splits)
  from float_int_Inr [OF k] rk
  show "\<exists>x. float_mul (weighted_sum sc fs) (Finite 25) = Finite x \<and>
           reba_score r = min (py_int x) 100"
    by auto
  show "[neck_score r, trunk_score r, upper_arm_score r, lower_arm_score r] =
        joint_ordinals sc fs"
    by (simp add: rk joint_ordinals_def)
  show "reba_score r \<le> 100" by (simp add: rk)
  assume "list_all (\<lambda>w. 0 \<le> w) (joint_weights sc)"
  then have "float_nonneg (float_mul (weighted_sum sc fs) (Finite 25))"
    by (intro float_mul_nonneg_pos weighted_sum_nonneg) simp_all
  from float_int_nonneg [OF this k] show "0 \<le> reba_score r" by (simp add: rk)
qed

lemma round_quarter: "round_binary64 (1 / 4) = 1 / 4"
  unfolding round_binary64_def
  by (rule round_binary_exact [where m = 1 and e = "- 2"]) simp_all

lemma fl_three_quarters: "fl (3 / 4) = Finite (3 / 4)"
  by (rule fl_exact [where m = 3 and e = "- 2"]) (simp_all add: max_binary64_def)

lemma fl_75_4: "fl (75 / 4) = Finite (75 / 4)"
  by (rule fl_exact [where m = 75 and e = "- 2"]) (simp_all add: max_binary64_def)

lemma default_weights_nonneg: "list_all (\<lambda>w. 0 \<le> w) (joint_weights default_scorer)"
  by (simp add: joint_weights_def default_scorer_def get_or_def round_binary64_def
        round_binary_nonneg)

lemma sample_joint_ordinals: "joint_ordinals default_scorer sample_features = [0, 3, 0, 0]"
  by (simp add: joint_ordinals_def arm_ordinal_def sample_features_def eval_defs)

lemma default_joint_weights:
  "joint_weights default_scorer =
     [round_binary64 (1 / 5), 1 / 4, round_binary64 (1 / 5), round_binary64 (3 / 20)]"
  by (simp add: joint_weights_def default_scorer_def get_or_def round_quarter)

lemma sample_weighted_sum:
  "float_mul (weighted_sum default_scorer sample_features) (Finite 25) = Finite (75 / 4)"
  by (simp add: weighted_sum_def sample_joint_ordinals default_joint_weights
        int_times_float_def fl_0 fl_three_quarters fl_75_4)

lemma sample_reba:
  "calculate_reba_score default_scorer sample_features =
     Inr \<lparr> reba_score = 18, neck_score = 0, trunk_score = 3, upper_arm_score = 0,
           lower_arm_score = 0, reba_confidence = 1 / 4 \<rparr>"
  by (simp add: calculate_reba_score_eq sample_weighted_sum sample_joint_ordinals bind_err_def
        py_int_def)
     (simp add: calculate_confidence_def sample_features_def)

lemma rounding_joint_ordinals: "joint_ordinals default_scorer rounding_features = [2, 3, 2, 3]"
  by (simp add: joint_ordinals_def arm_ordinal_def rounding_features_def eval_defs)

lemma prod_02: "fl (2 * (7205759403792794 / 2 ^ 55)) = Finite (7205759403792794 / 2 ^ 54)"
proof -
  have lo: "(2 :: real) powi - 2 \<le> \<bar>2 * (7205759403792794 / 2 ^ 55)\<bar>"
    by (simp add: power_int_minus_divide)
  have hi: "\<bar>2 * (7205759403792794 / 2 ^ 55) :: real\<bar> < 2 powi (- 2 + 1)"
    by (simp add: power_int_minus_divide)
  have n: "py_round (2 * (7205759403792794 / 2 ^ 55) * 2 ^ 54) = 7205759403792794"
    by (simp add: py_round_def Let_def)
  from fl_eval [OF lo hi _ _ n] show ?thesis by (simp add: max_binary64_def)
qed

lemma prod_015: "fl (3 * (5404319552844595 / 2 ^ 55)) = Finite (8106479329266892 / 2 ^ 54)"
proof -
  have lo: "(2 :: real) powi - 2 \<le> \<bar>3 * (5404319552844595 / 2 ^ 55)\<bar>"
    by (simp add: power_int_minus_divide)
  have hi: "\<bar>3 * (5404319552844595 / 2 ^ 55) :: real\<bar> < 2 powi (- 2 + 1)"
    by (simp add: power_int_minus_divide)
  have n: "py_round (3 * (5404319552844595 / 2 ^ 55) * 2 ^ 54) = 8106479329266892"
    by (simp add: py_round_def Let_def)
  from fl_eval [OF lo hi _ _ n] show ?thesis by (simp add: max_binary64_def)
qed

lemma sum_1: "fl (7205759403792794 / 2 ^ 54 + 3 / 4) = Finite (5179139571476070 / 2 ^ 52)"
proof -
  have lo: "(2 :: real) powi 0 \<le> \<bar>7205759403792794 / 2 ^ 54 + 3 / 4\<bar>"
    by simp
  have hi: "\<bar>7205759403792794 / 2 ^ 54 + 3 / 4 :: real\<bar> < 2 powi (0 + 1)"
    by simp
  have n: "py_round ((7205759403792794 / 2 ^ 54 + 3 / 4) * 2 ^ 52) = 5179139571476070"
    by (simp add: py_round_def Let_def)
  from fl_eval [OF lo hi _ _ n] show ?thesis by (simp add: max_binary64_def)
qed

lemma sum_2:
  "fl (5179139571476070 / 2 ^ 52 + 7205759403792794 / 2 ^ 54) =
     Finite (6980579422424268 / 2 ^ 52)"
proof -
  have lo: "(2 :: real) powi 0 \<le> \<bar>5179139571476070 / 2 ^ 52 + 7205759403792794 / 2 ^ 54\<bar>"
    by simp
  have hi: "\<bar>5179139571476070 / 2 ^ 52 + 7205759403792794 / 2 ^ 54 :: real\<bar> < 2 powi (0 + 1)"
    by simp
  have n: "py_round ((5179139571476070 / 2 ^ 52 + 7205759403792794 / 2 ^ 54) * 2 ^ 52) =
      6980579422424268"
    by (simp add: py_round_def Let_def)
  from fl_eval [OF lo hi _ _ n] show ?thesis by (simp add: max_binary64_def)
qed

lemma sum_3:
  "fl (6980579422424268 / 2 ^ 52 + 8106479329266892 / 2 ^ 54) =
     Finite (9007199254740991 / 2 ^ 52)"
proof -
  have lo: "(2 :: real) powi 0 \<le> \<bar>6980579422424268 / 2 ^ 52 + 8106479329266892 / 2 ^ 54\<bar>"
    by simp
  have hi: "\<bar>6980579422424268 / 2 ^ 52 + 8106479329266892 / 2 ^ 54 :: real\<bar> < 2 powi (0 + 1)"
    by simp
  have n: "py_round ((6980579422424268 / 2 ^ 52 + 8106479329266892 / 2 ^ 54) * 2 ^ 52) =
      9007199254740991"
    by (simp add: py_round_def Let_def)
  from fl_eval [OF lo hi _ _ n] show ?thesis by (simp add: max_binary64_def)
qed

lemma times_25:
  "fl (9007199254740991 / 2 ^ 52 * 25) = Finite (7036874417766399 / 2 ^ 47)"
proof -
  have lo: "(2 :: real) powi 5 \<le> \<bar>9007199254740991 / 2 ^ 52 * 25\<bar>"
    by simp
  have hi: "\<bar>9007199254740991 / 2 ^ 52 * 25 :: real\<bar> < 2 powi (5 + 1)"
    by simp
  have n: "py_round (9007199254740991 / 2 ^ 52 * 25 * 2 ^ 47) = 7036874417766399"
    by (simp add: py_round_def Let_def)
  from fl_eval [OF lo hi _ _ n] show ?thesis by (simp add: max_binary64_def)
qed

lemma rounding_weighted_sum:
  "float_mul (weighted_sum default_scorer rounding_features) (Finite 25) =
     Finite (7036874417766399 / 2 ^ 47)"
proof -
  have w: "joint_weights default_scorer =
      [7205759403792794 / 2 ^ 55, 1 / 4, 7205759403792794 / 2 ^ 55, 5404319552844595 / 2 ^ 55]"
    unfolding default_joint_weights round_one_fifth round_three_twentieths ..
  have "weighted_sum default_scorer rounding_features =
      float_add
        (float_add
          (float_add (fl (2 * (7205759403792794 / 2 ^ 55))) (fl (3 / 4)))
          (fl (2 * (7205759403792794 / 2 ^ 55))))
        (fl (3 * (5404319552844595 / 2 ^ 55)))"
    unfolding weighted_sum_def rounding_joint_ordinals w
    by (simp add: int_times_float_def del: power_numeral)
  also have "\<dots> = Finite (9007199254740991 / 2 ^ 52)"
    unfolding prod_02 prod_015 fl_three_quarters float_add.simps sum_1 sum_2 sum_3 ..
  finally show ?thesis
    by (simp only: float_mul.simps times_25)
qed

lemma rounding_reba:
  "calculate_reba_score default_scorer rounding_features =
     Inr \<lparr> reba_score = 49, neck_score = 2, trunk_score = 3, upper_arm_score = 2,
           lower_arm_score = 3, reba_confidence = 5 / 8 \<rparr>"
proof -
  have "py_int (7036874417766399 / 2 ^ 47) = 49" by (simp add: py_int_def)
  then show ?thesis
    by (simp add: calculate_reba_score_eq rounding_weighted_sum rounding_joint_ordinals
          bind_err_def del: power_numeral)
       (simp add: calculate_confidence_def rounding_features_def)
qed

lemma fl_overflow: "fl (2 * 2 ^ 1023) = PosInf"
proof -
  have "round_binary64 (2 * 2 ^ 1023) = 2 * 2 ^ 1023"
    unfolding round_binary64_def
    by (rule round_binary_exact [where m = 1 and e = 1024]) simp_all
  then show ?thesis by (simp add: fl_def max_binary64_def)
qed

lemma overflow_joint_ordinals: "joint_ordinals overflow_scorer rounding_features = [2, 3, 2, 3]"
  by (simp add: joint_ordinals_def arm_ordinal_def rounding_features_def overflow_scorer_def
        eval_defs)

lemma overflow_joint_weights:
  "joint_weights overflow_scorer =
     [2 ^ 1023, 1 / 4, 7205759403792794 / 2 ^ 55, 5404319552844595 / 2 ^ 55]"
proof -
  have "joint_weights overflow_scorer =
      [2 ^ 1023, 1 / 4, round_binary64 (1 / 5), round_binary64 (3 / 20)]"
    by (simp add: joint_weights_def overflow_scorer_def get_or_def round_quarter
          del: power_numeral)
  then show ?thesis
    unfolding round_one_fifth round_three_twentieths .
qed

lemma overflow_weighted_sum:
  "float_mul (weighted_sum overflow_scorer rounding_features) (Finite 25) = PosInf"
proof -
  have "weighted_sum overflow_scorer rounding_features =
      float_add
        (float_add
          (float_add (fl (2 * 2 ^ 1023)) (fl (3 / 4)))
          (fl (2 * (7205759403792794 / 2 ^ 55))))
        (fl (3 * (5404319552844595 / 2 ^ 55)))"
    unfolding weighted_sum_def overflow_joint_ordinals overflow_joint_weights
    by (simp add: int_times_float_def del: power_numeral)
  also have "\<dots> = PosInf"
    unfolding prod_02 prod_015 fl_three_quarters fl_overflow float_add.simps ..
  finally show ?thesis by simp
qed

lemma overflow_reba:
  "calculate_reba_score overflow_scorer rounding_features = Inl OverflowError"
  by (simp add: calculate_reba_score_eq overflow_weighted_sum bind_err_def)

text \<open>With the default tables and only the trunk angle (50 degrees) and the asymmetry
  known, the weighted sum times 25 is 18.75 and the score is 18.  With ordinals 2, 3, 2 and
  3 the exact sum times 25 is 50, the float product is the binary64 number just below 50,
  and the score is 49.  With the neck weight \<open>2 ** 1023\<close> the product is infinite and the
  function raises OverflowError.\<close>

theorem reba_score_truncates_witness:
  "list_all (\<lambda>w. 0 \<le> w) (joint_weights default_scorer) \<and>
   calculate_reba_score default_scorer sample_features =
     Inr \<lparr> reba_score = 18, neck_score = 0, trunk_score = 3, upper_arm_score = 0,
           lower_arm_score = 0, reba_confidence = 1 / 4 \<rparr> \<and>
   float_mul (weighted_sum default_scorer sample_features) (Finite 25) = Finite (75 / 4) \<and>
   18 = min (py_int (75 / 4)) 100 \<and> (0 :: int) \<le> 18 \<and>
   calculate_reba_score default_scorer rounding_features =
     Inr \<lparr> reba_score = 49, neck_score = 2, trunk_score = 3, upper_arm_score = 2,
           lower_arm_score = 3, reba_confidence = 5 / 8 \<rparr> \<and>
   float_mul (weighted_sum default_scorer rounding_features) (Finite 25) =
     Finite (7036874417766399 / 2 ^ 47) \<and>
   (2 * (20 / 100) + 3 * (25 / 100) + 2 * (20 / 100) + 3 * (15 / 100)) * 25 = (50 :: real) \<and>
   float_mul (weighted_sum overflow_scorer rounding_features) (Finite 25) = PosInf \<and>
   calculate_reba_score overflow_scorer rounding_features = Inl OverflowError"
  using reba_score_truncates [of default_scorer sample_features]
    reba_score_truncates [of default_scorer rounding_features]
    reba_score_truncates [of overflow_scorer rounding_features]
    default_weights_nonneg sample_reba sample_weighted_sum rounding_reba rounding_weighted_sum
    overflow_weighted_sum
  by (simp add: py_int_def)

text \<open>Claim C3 as stated fails there: rounding 18.75 gives 19, the code returns 18.\<close>

theorem reba_round_counterexample:
  "calculate_reba_score default_scorer sample_features =
     Inr \<lparr> reba_score = 18, neck_score = 0, trunk_score = 3, upper_arm_score = 0,
           lower_arm_score = 0, reba_confidence = 1 / 4 \<rparr> \<and>
   float_mul (weighted_sum default_scorer sample_features) (Finite 25) = Finite (75 / 4) \<and>
   claimed_final (75 / 4) = 19"
  using sample_reba sample_weighted_sum by (simp add: claimed_final_def round_def)

text \<open>
  Claim C6.  For every threshold triple, the ordinal of a missing angle is 0 and the ordinal
  of an angle is 1 below \<open>low\<close>, 2 below \<open>medium\<close>, 3 below \<open>high\<close> and 4 otherwise; and
  for thresholds with \<open>low \<le> medium \<le> high\<close> the ordinal does not decrease when the angle
  grows.
\<close>

theorem score_angle_ordinal_monotone:
  "score_angle None th = 0 \<and>
   score_angle (Some a) th =
     (if a < low th then 1 else if a < medium th then 2 else if a < high th then 3 else 4) \<and>
   (low th \<le> medium th \<and> medium th \<le> high th \<and> a1 \<le> a2 \<longrightarrow>
      score_angle (Some a1) th \<le> score_angle (Some a2) th)"
  by (simp add: score_angle_def)

text \<open>With the default neck thresholds: 30 degrees scores 2, and 10 degrees scores no more
  than 50 degrees.\<close>

theorem score_angle_ordinal_monotone_witness:
  "low \<lparr>low = 20, medium = 45, high = 60\<rparr> \<le> medium \<lparr>low = 20, medium = 45, high = 60\<rparr> \<and>
   medium \<lparr>low = 20, medium = 45, high = 60\<rparr> \<le> high \<lparr>low = 20, medium = 45, high = 60\<rparr> \<and>
   (10 :: real) \<le> 50 \<and>
   score_angle None \<lparr>low = 20, medium = 45, high = 60\<rparr> = 0 \<and>
   score_angle (Some 30) \<lparr>low = 20, medium = 45, high = 60\<rparr> = 2 \<and>
   score_angle (Some 10) \<lparr>low = 20, medium = 45, high = 60\<rparr> \<le>
   score_angle (Some 50) \<lparr>low = 20, medium = 45, high = 60\<rparr>"
  using score_angle_ordinal_monotone
          [of "\<lparr>low = 20, medium = 45, high = 60\<rparr>" 30 10 50]
  by simp

lemma rula_result_eq:
  "calculate_rula_score sc fs =
     \<lparr> rula_score = min (py_int (of_int (fst (rula_groups sc fs) + snd (rula_groups sc fs)) * (125 / 10))) 100,
       group_a_score = fst (rula_groups sc fs),
       group_b_score = snd (rula_groups sc fs),
       rula_confidence = calculate_confidence fs \<rparr>"
  by (simp add: calculate_rula_score_def rula_groups_def Let_def)

lemma rula_groups_nonneg: "0 \<le> fst (rula_groups sc fs) + snd (rula_groups sc fs)"
  by (simp add: rula_groups_def score_angle_nonneg)

lemma py_int_half: "0 \<le> n \<Longrightarrow> py_int (of_int n * (125 / 10)) = (25 * n) div 2"
proof -
  assume n: "0 \<le> n"
  have "of_int n * (125 / 10 :: real) = of_int (25 * n) / of_int 2" by simp
  then have "\<lfloor>of_int n * (125 / 10 :: real)\<rfloor> = (25 * n) div 2"
    by (simp only: floor_divide_of_int_eq)
  with n show ?thesis by (simp add: py_int_def)
qed

lemma dict_get_update_other:
  "k \<noteq> k' \<Longrightarrow> dict_get (AList.update k v fs) k' = dict_get fs k'"
  by (simp add: dict_get_def update_conv')

lemma rula_groups_right_side:
  "rula_groups sc (AList.update ''right_shoulder_abduction'' v
                    (AList.update ''right_elbow_flexion'' w fs)) = rula_groups sc fs"
  by (simp add: rula_groups_def dict_get_update_other)

text \<open>
  Claim C4, as amended.  Group A is the sum of the ordinals of the left shoulder abduction
  and the left elbow flexion, group B the sum of the ordinals of neck and trunk flexion, and
  the RULA score is \<open>int((group_a + group_b) * 12.5)\<close>, truncated and not rounded, capped at
  100; it lies in \<open>[0, 100]\<close>.  Group A and the score do not change when the right-side
  angles are set to any other values.
\<close>

theorem rula_score_truncates:
  "group_a_score (calculate_rula_score sc fs) =
     score_angle (dict_get fs ''left_shoulder_abduction'') (shoulder_thresholds sc) +
     score_angle (dict_get fs ''left_elbow_flexion'') (elbow_thresholds sc) \<and>
   group_b_score (calculate_rula_score sc fs) =
     score_angle (dict_get fs ''neck_flexion'') (neck_thresholds sc) +
     score_angle (dict_get fs ''trunk_flexion'') (trunk_thresholds sc) \<and>
   rula_score (calculate_rula_score sc fs) =
     min (py_int (of_int (group_a_score (calculate_rula_score sc fs) +
                          group_b_score (calculate_rula_score sc fs)) * (125 / 10))) 100 \<and>
   rula_score (calculate_rula_score sc fs) =
     min ((25 * (group_a_score (calculate_rula_score sc fs) +
                 group_b_score (calculate_rula_score sc fs))) div 2) 100 \<and>
   0 \<le> rula_score (calculate_rula_score sc fs) \<and>
   rula_score (calculate_rula_score sc fs) \<le> 100 \<and>
   group_a_score (calculate_rula_score sc
       (AList.update ''right_shoulder_abduction'' v
         (AList.update ''right_elbow_flexion'' w fs))) =
     group_a_score (calculate_rula_score sc fs) \<and>
   rula_score (calculate_rula_score sc
       (AList.update ''right_shoulder_abduction'' v
         (AList.update ''right_elbow_flexion'' w fs))) =
     rula_score (calculate_rula_score sc fs)"
proof -
  let ?n = "fst (rula_groups sc fs) + snd (rula_groups sc fs)"
  have n: "0 \<le> ?n" by (rule rula_groups_nonneg)
  have half: "py_int (of_int ?n * (125 / 10)) = (25 * ?n) div 2"
    using n by (rule py_int_half)
  have nonneg: "0 \<le> (25 * ?n) div 2" using n by simp
  show ?thesis
    unfolding rula_result_eq rula_groups_right_side
    using half nonneg by (simp add: rula_groups_def)
qed

text \<open>With the sample features the groups are 0 and 3 and the score is 37, also after the
  right-side angles are set to 170 degrees.\<close>

theorem rula_score_truncates_witness:
  "group_a_score (calculate_rula_score default_scorer sample_features) = 0 \<and>
   group_b_score (calculate_rula_score default_scorer sample_features) = 3 \<and>
   rula_score (calculate_rula_score default_scorer sample_features) = 37 \<and>
   rula_score (calculate_rula_score default_scorer
       (AList.update ''right_shoulder_abduction'' (Some 170)
         (AList.update ''right_elbow_flexion'' (Some 170) sample_features))) = 37"
proof -
  have a: "score_angle (dict_get sample_features ''left_shoulder_abduction'')
             (shoulder_thresholds default_scorer) +
           score_angle (dict_get sample_features ''left_elbow_flexion'')
             (elbow_thresholds default_scorer) = 0"
    by (simp add: sample_features_def eval_defs)
  have b: "score_angle (dict_get sample_features ''neck_flexion'')
             (neck_thresholds default_scorer) +
           score_angle (dict_get sample_features ''trunk_flexion'')
             (trunk_thresholds default_scorer) = 3"
    by (simp add: sample_features_def eval_defs)
  from rula_score_truncates [of default_scorer sample_features "Some 170" "Some 170"]
  show ?thesis unfolding a b by (simp add: py_int_def)
qed

text \<open>Claim C4 as stated fails there: 3 times 12.5 is 37.5, which rounds to 38 (half up as
  well as half to even), and the code returns 37.\<close>

theorem rula_round_counterexample:
  "rula_score (calculate_rula_score default_scorer sample_features) = 37 \<and>
   claimed_rula default_scorer sample_features = 38 \<and>
   py_round (of_int (fst (rula_groups default_scorer sample_features) +
                     snd (rula_groups default_scorer sample_features)) * (125 / 10)) = 38"
proof -
  have g: "rula_groups default_scorer sample_features = (0, 3)"
    by (simp add: rula_groups_def sample_features_def eval_defs)
  show ?thesis
    unfolding rula_result_eq claimed_rula_def g
    by (simp add: py_int_def round_def py_round_def Let_def)
qed

lemma compute_risk_empty:
  "(case inputs of None \<Rightarrow> [] | Some f \<Rightarrow> f) = [] \<Longrightarrow> compute_risk sc inputs = no_features_assessment"
  by (simp add: compute_risk_def)

lemma compute_risk_scored:
  assumes "(case inputs of None \<Rightarrow> [] | Some f \<Rightarrow> f) = fs" and "fs \<noteq> []"
    and "calculate_reba_score sc fs = Inr rb"
  shows "compute_risk sc inputs =
     \<lparr> rula = Some (rula_score (calculate_rula_score sc fs)),
       reba = Some (reba_score rb),
       niosh = None,
       composite = Some (py_int (of_int (reba_score rb +
                                         rula_score (calculate_rula_score sc fs)) / 2)),
       confidence = Some (py_round_ndigits
          ((reba_confidence rb + rula_confidence (calculate_rula_score sc fs)) / 2) 2),
       traffic_light = Some (get_traffic_light
          (py_int (of_int (reba_score rb + rula_score (calculate_rula_score sc fs)) / 2))),
       risk_level = Some (get_risk_level sc
          (py_int (of_int (reba_score rb + rula_score (calculate_rula_score sc fs)) / 2))),
       details = Some (rb, calculate_rula_score sc fs),
       risk_error = None \<rparr>"
  using assms by (simp add: compute_risk_def compute_risk_try_def bind_err_def Let_def)

lemma compute_risk_raised:
  assumes "(case inputs of None \<Rightarrow> [] | Some f \<Rightarrow> f) = fs" and "fs \<noteq> []"
    and "calculate_reba_score sc fs = Inl e"
  shows "compute_risk sc inputs = error_assessment e"
  using assms by (simp add: compute_risk_def compute_risk_try_def bind_err_def)

text \<open>
  Claim C1, as amended.  \<open>compute_risk\<close> returns null for rula, reba, composite,
  traffic\_light and risk\_level, and stores no error, when the feature dict is missing or
  empty (has no key at all).  For a dict that is not empty an error is stored exactly when
  the REBA scoring raises; the five fields are all null exactly when an error is stored, and
  all non-null exactly when none is: a dict with the eight keys bound to \<open>None\<close> is scored
  like any other.
\<close>

theorem compute_risk_null_on_empty:
  "(inputs = None \<or> inputs = Some [] \<longrightarrow>
      rula (compute_risk sc inputs) = None \<and> reba (compute_risk sc inputs) = None \<and>
      composite (compute_risk sc inputs) = None \<and>
      traffic_light (compute_risk sc inputs) = None \<and>
      risk_level (compute_risk sc inputs) = None \<and>
      risk_error (compute_risk sc inputs) = None) \<and>
   (\<forall>fs. inputs = Some fs \<and> fs \<noteq> [] \<longrightarrow>
      risk_error (compute_risk sc inputs) =
        (case calculate_reba_score sc fs of Inl e \<Rightarrow> Some e | Inr r \<Rightarrow> None) \<and>
      (rula (compute_risk sc inputs) = None \<and> reba (compute_risk sc inputs) = None \<and>
       composite (compute_risk sc inputs) = None \<and>
       traffic_light (compute_risk sc inputs) = None \<and>
       risk_level (compute_risk sc inputs) = None) =
      (risk_error (compute_risk sc inputs) \<noteq> None) \<and>
      (rula (compute_risk sc inputs) \<noteq> None \<and> reba (compute_risk sc inputs) \<noteq> None \<and>
       composite (compute_risk sc inputs) \<noteq> None \<and>
       traffic_light (compute_risk sc inputs) \<noteq> None \<and>
       risk_level (compute_risk sc inputs) \<noteq> None) =
      (risk_error (compute_risk sc inputs) = None))"
proof -
  have empty: "rula (compute_risk sc inputs) = None \<and> reba (compute_risk sc inputs) = None \<and>
      composite (compute_risk sc inputs) = None \<and>
      traffic_light (compute_risk sc inputs) = None \<and>
      risk_level (compute_risk sc inputs) = None \<and>
      risk_error (compute_risk sc inputs) = None"
    if "inputs = None \<or> inputs = Some []"
  proof -
    from that have "(case inputs of None \<Rightarrow> [] | Some f \<Rightarrow> f) = []" by auto
    from compute_risk_empty [OF this, of sc] show ?thesis
      by (simp add: no_features_assessment_def)
  qed
  have nonempty:
    "risk_error (compute_risk sc inputs) =
        (case calculate_reba_score sc fs of Inl e \<Rightarrow> Some e | Inr r \<Rightarrow> None) \<and>
     ((rula (compute_risk sc inputs) = None \<and> reba (compute_risk sc inputs) = None \<and>
       composite (compute_risk sc inputs) = None \<and>
       traffic_light (compute_risk sc inputs) = None \<and>
       risk_level (compute_risk sc inputs) = None) =
      (risk_error (compute_risk sc inputs) \<noteq> None)) \<and>
     ((rula (compute_risk sc inputs) \<noteq> None \<and> reba (compute_risk sc inputs) \<noteq> None \<and>
       composite (compute_risk sc inputs) \<noteq> None \<and>
       traffic_light (compute_risk sc inputs) \<noteq> None \<and>
       risk_level (compute_risk sc inputs) \<noteq> None) =
      (risk_error (compute_risk sc inputs) = None))"
    if "inputs = Some fs \<and> fs \<noteq> []" for fs
  proof -
    from that have fs: "(case inputs of None \<Rightarrow> [] | Some f \<Rightarrow> f) = fs" "fs \<noteq> []"
      by simp_all
    show ?thesis
    proof (cases "calculate_reba_score sc fs")
      case (Inl e)
      show ?thesis
        unfolding compute_risk_raised [OF fs Inl] Inl by (simp add: error_assessment_def)
    next
      case (Inr rb)
      show ?thesis
        unfolding compute_risk_scored [OF fs Inr] Inr by simp
    qed
  qed
  from empty nonempty show ?thesis by blast
qed

text \<open>The empty dict gives the five null fields and no error; the sample features are
  scored and no error is stored; with the neck weight \<open>2 ** 1023\<close> the REBA scoring raises,
  the error is stored and the five fields are null.\<close>

theorem compute_risk_null_on_empty_witness:
  "rula (compute_risk default_scorer (Some [])) = None \<and>
   reba (compute_risk default_scorer (Some [])) = None \<and>
   composite (compute_risk default_scorer (Some [])) = None \<and>
   traffic_light (compute_risk default_scorer (Some [])) = None \<and>
   risk_level (compute_risk default_scorer (Some [])) = None \<and>
   risk_error (compute_risk default_scorer (Some [])) = None \<and>
   risk_error (compute_risk default_scorer (Some sample_features)) = None \<and>
   reba (compute_risk default_scorer (Some sample_features)) \<noteq> None \<and>
   composite (compute_risk default_scorer (Some sample_features)) \<noteq> None \<and>
   calculate_reba_score overflow_scorer rounding_features = Inl OverflowError \<and>
   risk_error (compute_risk overflow_scorer (Some rounding_features)) = Some OverflowError \<and>
   reba (compute_risk overflow_scorer (Some rounding_features)) = None \<and>
   rula (compute_risk overflow_scorer (Some rounding_features)) = None \<and>
   composite (compute_risk overflow_scorer (Some rounding_features)) = None \<and>
   traffic_light (compute_risk overflow_scorer (Some rounding_features)) = None \<and>
   risk_level (compute_risk overflow_scorer (Some rounding_features)) = None"
proof -
  have ne: "sample_features \<noteq> []" "rounding_features \<noteq> []"
    by (simp_all add: sample_features_def rounding_features_def)
  from compute_risk_null_on_empty [of "Some []" default_scorer]
  have empty: "rula (compute_risk default_scorer (Some [])) = None \<and>
      reba (compute_risk default_scorer (Some [])) = None \<and>
      composite (compute_risk default_scorer (Some [])) = None \<and>
      traffic_light (compute_risk default_scorer (Some [])) = None \<and>
      risk_level (compute_risk default_scorer (Some [])) = None \<and>
      risk_error (compute_risk default_scorer (Some [])) = None"
    by simp
  from compute_risk_null_on_empty [of "Some sample_features" default_scorer] ne(1)
  have scored: "risk_error (compute_risk default_scorer (Some sample_features)) = None \<and>
      reba (compute_risk default_scorer (Some sample_features)) \<noteq> None \<and>
      composite (compute_risk default_scorer (Some sample_features)) \<noteq> None"
    by (simp add: sample_reba del: not_None_eq, blast)
  from compute_risk_null_on_empty [of "Some rounding_features" overflow_scorer] ne(2)
  have raised:
     "risk_error (compute_risk overflow_scorer (Some rounding_features)) = Some OverflowError \<and>
      reba (compute_risk overflow_scorer (Some rounding_features)) = None \<and>
      rula (compute_risk overflow_scorer (Some rounding_features)) = None \<and>
      composite (compute_risk overflow_scorer (Some rounding_features)) = None \<and>
      traffic_light (compute_risk overflow_scorer (Some rounding_features)) = None \<and>
      risk_level (compute_risk overflow_scorer (Some rounding_features)) = None"
    by (simp add: overflow_reba del: not_None_eq, blast)
  from empty scored raised overflow_reba show ?thesis by (simp del: not_None_eq)
qed

lemma initial_joint_ordinals: "joint_ordinals default_scorer initial_features = [0, 0, 0, 0]"
  by (simp add: joint_ordinals_def arm_ordinal_def initial_features_def feature_names_def
        eval_defs)

lemma initial_features_reba: "calculate_reba_score default_scorer initial_features =
  Inr \<lparr> reba_score = 0, neck_score = 0, trunk_score = 0, upper_arm_score = 0,
        lower_arm_score = 0, reba_confidence = 0 \<rparr>"
proof -
  have "float_mul (weighted_sum default_scorer initial_features) (Finite 25) = Finite 0"
    by (simp add: weighted_sum_def initial_joint_ordinals default_joint_weights
          int_times_float_def fl_0)
  then show ?thesis
    by (simp add: calculate_reba_score_eq initial_joint_ordinals bind_err_def py_int_def)
       (simp add: calculate_confidence_def initial_features_def feature_names_def)
qed

lemma initial_features_rula: "calculate_rula_score default_scorer initial_features =
  \<lparr> rula_score = 0, group_a_score = 0, group_b_score = 0, rula_confidence = 0 \<rparr>"
  by (simp add: calculate_rula_score_def initial_features_def
        feature_names_def eval_defs)

text \<open>Claim C1 as stated fails on the dict with all eight keys bound to \<open>None\<close>: it is not
  empty, every ordinal is 0, and the scores are 0, green and negligible.\<close>

theorem all_none_features_counterexample:
  "map snd initial_features = replicate 8 None \<and>
   rula (compute_risk default_scorer (Some initial_features)) = Some 0 \<and>
   reba (compute_risk default_scorer (Some initial_features)) = Some 0 \<and>
   composite (compute_risk default_scorer (Some initial_features)) = Some 0 \<and>
   traffic_light (compute_risk default_scorer (Some initial_features)) = Some ''green'' \<and>
   risk_level (compute_risk default_scorer (Some initial_features)) = Some ''negligible''"
proof -
  have ne: "initial_features \<noteq> []"
    by (simp add: initial_features_def feature_names_def)
  have vals: "map snd initial_features = replicate 8 None"
    by (simp add: initial_features_def feature_names_def eval_nat_numeral)
  have lvl: "get_risk_level default_scorer 0 = ''negligible''"
    by (simp add: get_risk_level_def default_scorer_def)
  have "(case Some initial_features of None \<Rightarrow> [] | Some f \<Rightarrow> f) = initial_features" by simp
  from compute_risk_scored [OF this ne initial_features_reba] vals lvl show ?thesis
    unfolding initial_features_rula
    by (simp add: py_int_def get_traffic_light_def)
qed




section \<open>Properties of the keypoint decoder\<close>

lemma unpack_row_shaped:
  assumes "shape a = [b, k, 3]" and "0 < b"
  shows "unpack_row a idx = Inr (item a [0, idx, 0], item a [0, idx, 1], item a [0, idx, 2])"
  using assms by (simp add: unpack_row_def)

lemma extract_loop_shaped:
  assumes "shape a = [b, k, 3]" and "0 < b"
  shows "extract_loop t names a idxs acc =
           Inr (acc @ map (expected_keypoint names a)
                          (filter (\<lambda>i. as_dtype a t \<le> item a [0, i, 2]) idxs))"
proof (induction idxs arbitrary: acc)
  case Nil
  show ?case by simp
next
  case (Cons idx rest)
  show ?case
    by (simp add: unpack_row_shaped [OF assms] Cons.IH expected_keypoint_def keypoint_name_def)
qed

lemma extract_keypoints_shaped:
  assumes "confidence_threshold cfg = Some t" and "keypoint_names cfg = Some names"
    and "shape a = [b, k, 3]" and "0 < b"
  shows "extract_keypoints cfg a =
           Inr (map (expected_keypoint names a)
                    (filter (\<lambda>i. as_dtype a t \<le> item a [0, i, 2]) [0 ..< k]))"
proof -
  have "ndim a = 3" using assms(3) by (simp add: ndim_def)
  moreover have "shape a ! 1 = k" using assms(3) by simp
  ultimately show ?thesis
    using assms(1,2) by (simp add: extract_keypoints_def extract_loop_shaped [OF assms(3,4)])
qed

text \<open>
  Claim C2, as amended.  For every threshold and every list of names: a tensor of rank other
  than 3 decodes to the empty list, without an error; a tensor of shape \<open>[b, k, 3]\<close> with
  \<open>b\<close> at least 1 decodes to the keypoints of exactly the indices below \<open>k\<close> whose
  confidence is at least the threshold as NumPy compares the two, that is, at least the
  threshold converted to the dtype of the tensor; they come in index order, each with its
  index as id and with the supplied name, or \<open>keypoint_<id>\<close> when the name list is too
  short.  Where the conversion leaves the threshold as it is, these are the indices whose
  confidence is at least the threshold.
\<close>

theorem extract_keypoints_decodes:
  assumes "confidence_threshold cfg = Some t" and "keypoint_names cfg = Some names"
  shows "(ndim a \<noteq> 3 \<longrightarrow> extract_keypoints cfg a = Inr []) \<and>
         (shape a = [b, k, 3] \<and> 0 < b \<longrightarrow>
            extract_keypoints cfg a =
              Inr (map (expected_keypoint names a)
                       (filter (\<lambda>i. as_dtype a t \<le> item a [0, i, 2]) [0 ..< k]))) \<and>
         (shape a = [b, k, 3] \<and> 0 < b \<and> as_dtype a t = t \<longrightarrow>
            extract_keypoints cfg a =
              Inr (map (expected_keypoint names a)
                       (filter (\<lambda>i. t \<le> item a [0, i, 2]) [0 ..< k])))"
proof (intro conjI impI)
  assume "ndim a \<noteq> 3"
  then show "extract_keypoints cfg a = Inr []" by (simp add: extract_keypoints_def)
next
  assume sh: "shape a = [b, k, 3] \<and> 0 < b"
  show "extract_keypoints cfg a =
      Inr (map (expected_keypoint names a)
             (filter (\<lambda>i. as_dtype a t \<le> item a [0, i, 2]) [0 ..< k]))"
    by (rule extract_keypoints_shaped [OF assms conjunct1 [OF sh] conjunct2 [OF sh]])
next
  assume sh: "shape a = [b, k, 3] \<and> 0 < b \<and> as_dtype a t = t"
  then have s1: "shape a = [b, k, 3]" and s2: "0 < b" and s3: "as_dtype a t = t" by simp_all
  show "extract_keypoints cfg a =
      Inr (map (expected_keypoint names a) (filter (\<lambda>i. t \<le> item a [0, i, 2]) [0 ..< k]))"
    using extract_keypoints_shaped [OF assms s1 s2] by (simp only: s3)
qed

lemma upt_3: "[0 ..< 3] = [0, 1, 2]"
  by (simp add: upt_rec)

text \<open>The sample tensor decodes to the keypoints 0 and 2; a rank-2 tensor decodes to the
  empty list.  In the \<open>float32\<close> tensor the one confidence is below the threshold, the
  threshold converts to that very confidence, and the keypoint is kept.\<close>

theorem extract_keypoints_decodes_witness:
  "confidence_threshold sample_pose_config = Some (3 / 10) \<and>
   keypoint_names sample_pose_config = Some [''nose'', ''left_eye''] \<and>
   shape sample_tensor = [1, 3, 3] \<and> (0 :: nat) < 1 \<and>
   as_dtype sample_tensor (3 / 10) = 3 / 10 \<and>
   extract_keypoints sample_pose_config sample_tensor =
     Inr [\<lparr>kp_id = 0, kp_name = ''nose'', kp_x = 1 / 4, kp_y = 1 / 4, kp_confidence = 9 / 10\<rparr>,
          \<lparr>kp_id = 2, kp_name = ''keypoint_2'', kp_x = 1 / 4, kp_y = 1 / 4, kp_confidence = 1 / 2\<rparr>] \<and>
   ndim rank2_tensor \<noteq> 3 \<and>
   extract_keypoints sample_pose_config rank2_tensor = Inr [] \<and>
   item float32_tensor [0, 0, 2] < 30000002 / 100000000 \<and>
   as_dtype float32_tensor (30000002 / 100000000) = item float32_tensor [0, 0, 2] \<and>
   extract_keypoints float32_pose_config float32_tensor =
     Inr [\<lparr>kp_id = 0, kp_name = ''nose'', kp_x = 1 / 2, kp_y = 1 / 2,
           kp_confidence = 10066330 / 2 ^ 25\<rparr>]"
proof -
  have c: "confidence_threshold sample_pose_config = Some (3 / 10)"
          "keypoint_names sample_pose_config = Some [''nose'', ''left_eye'']"
    by (simp_all add: sample_pose_config_def)
  have s: "shape sample_tensor = [1, 3, 3] \<and> (0 :: nat) < 1 \<and>
           as_dtype sample_tensor (3 / 10) = 3 / 10"
    by (simp add: sample_tensor_def)
  have r2: "ndim rank2_tensor \<noteq> 3" by (simp add: ndim_def rank2_tensor_def)
  from extract_keypoints_decodes [OF c, of sample_tensor 1 3] s
  have "extract_keypoints sample_pose_config sample_tensor =
      Inr (map (expected_keypoint [''nose'', ''left_eye''] sample_tensor)
         (filter (\<lambda>i. 3 / 10 \<le> item sample_tensor [0, i, 2]) [0 ..< 3]))"
    by simp
  then have k1: "extract_keypoints sample_pose_config sample_tensor =
     Inr [\<lparr>kp_id = 0, kp_name = ''nose'', kp_x = 1 / 4, kp_y = 1 / 4, kp_confidence = 9 / 10\<rparr>,
          \<lparr>kp_id = 2, kp_name = ''keypoint_2'', kp_x = 1 / 4, kp_y = 1 / 4, kp_confidence = 1 / 2\<rparr>]"
    by (simp add: upt_3 expected_keypoint_def sample_tensor_def)
  from extract_keypoints_decodes [OF c, of rank2_tensor] r2
  have k2: "extract_keypoints sample_pose_config rank2_tensor = Inr []"
    by simp
  have c32: "confidence_threshold float32_pose_config = Some (30000002 / 100000000)"
            "keypoint_names float32_pose_config = Some [''nose'']"
    by (simp_all add: float32_pose_config_def)
  have s32: "shape float32_tensor = [1, 1, 3] \<and> (0 :: nat) < 1"
    by (simp add: float32_tensor_def)
  have cast: "as_dtype float32_tensor (30000002 / 100000000) = 10066330 / 2 ^ 25"
    by (simp only: float32_tensor_def ndarray.simps round_binary32_threshold)
  have it: "item float32_tensor [0, 0, 2] = 10066330 / 2 ^ 25"
    by (simp add: float32_tensor_def)
  have below: "item float32_tensor [0, 0, 2] < 30000002 / 100000000"
    unfolding it by simp
  from extract_keypoints_decodes [OF c32, of float32_tensor 1 1] s32
  have "extract_keypoints float32_pose_config float32_tensor =
      Inr (map (expected_keypoint [''nose''] float32_tensor)
         (filter (\<lambda>i. as_dtype float32_tensor (30000002 / 100000000)
                        \<le> item float32_tensor [0, i, 2]) [0 ..< 1]))"
    by (simp del: upt_Suc)
  then have k3: "extract_keypoints float32_pose_config float32_tensor =
     Inr [\<lparr>kp_id = 0, kp_name = ''nose'', kp_x = 1 / 2, kp_y = 1 / 2,
           kp_confidence = 10066330 / 2 ^ 25\<rparr>]"
    unfolding cast by (simp add: expected_keypoint_def float32_tensor_def)
  from c s r2 k1 k2 below cast it k3 show ?thesis by (simp del: power_numeral)
qed

text \<open>Claim C2 as stated fails on a rank-3 tensor whose rows have two entries: unpacking
  the row raises.\<close>

theorem short_row_counterexample:
  "ndim short_row_tensor = 3 \<and>
   extract_keypoints sample_pose_config short_row_tensor = Inl ValueError"
  by (simp add: short_row_tensor_def ndim_def extract_keypoints_def sample_pose_config_def
        unpack_row_def upt_rec)

section \<open>Properties of the feature extractor\<close>

lemma bind_err_Inr: "bind_err (Inr v) f = f v"
  by (simp add: bind_err_def)

lemma norm2_nonneg: "0 \<le> norm2 v"
  by (simp add: norm2_def)

lemma angle_divisor_pos: "0 < norm2 v * norm2 w + 1 / 10 ^ 6"
proof -
  have "0 \<le> norm2 v * norm2 w" by (intro mult_nonneg_nonneg norm2_nonneg)
  then show ?thesis by simp
qed

lemma clip_bounds: "- 1 \<le> clip c (- 1) 1 \<and> clip c (- 1) 1 \<le> 1"
  by (simp add: clip_def)

lemma calculate_angle_total: "calculate_angle p1 p2 p3 = Inr (vertex_angle p1 p2 p3)"
proof -
  let ?v1 = "(fst p1 - fst p2, snd p1 - snd p2)"
  let ?v2 = "(fst p3 - fst p2, snd p3 - snd p2)"
  have d: "checked_div (dot ?v1 ?v2) (norm2 ?v1 * norm2 ?v2 + 1 / 10 ^ 6) =
             Inr (dot ?v1 ?v2 / (norm2 ?v1 * norm2 ?v2 + 1 / 10 ^ 6))"
    using angle_divisor_pos [of ?v1 ?v2] by (simp add: checked_div_def)
  have a: "checked_arccos (clip c (- 1) 1) = Inr (arccos (clip c (- 1) 1))" for c
    using clip_bounds [of c] by (simp add: checked_arccos_def)
  show ?thesis
    unfolding calculate_angle_def vertex_angle_def Let_def d bind_err_Inr a ..
qed

lemma set_neck_flexion_put:
  "set_neck_flexion n l r fs = Inr (put ''neck_flexion'' (neck_flexion_of n l r) fs)"
  by (simp add: set_neck_flexion_def neck_flexion_of_def put_def Let_def split: option.splits)

lemma set_trunk_flexion_put:
  "set_trunk_flexion ls lh rs rh fs =
     Inr (put ''trunk_flexion'' (trunk_flexion_of ls lh rs rh) fs)"
  by (simp add: set_trunk_flexion_def trunk_flexion_of_def put_def Let_def split: option.splits)

lemma set_vertex_angle_put:
  "set_vertex_angle key p1 p2 p3 fs = Inr (put key (vertex_angle_of p1 p2 p3) fs)"
  by (simp add: set_vertex_angle_def vertex_angle_of_def put_def calculate_angle_total
        bind_err_Inr split: option.splits)

lemma set_asymmetry_score_put:
  "set_asymmetry_score ls rs fs = Inr (put ''asymmetry_score'' (asymmetry_of ls rs) fs)"
  by (simp add: set_asymmetry_score_def asymmetry_of_def put_def Let_def split: option.splits)

lemma set_reach_distance_ratio_put:
  "set_reach_distance_ratio ls rs lw fs =
     Inr (put ''reach_distance_ratio'' (reach_ratio_of ls rs lw) fs)"
  by (simp add: set_reach_distance_ratio_def reach_ratio_of_def put_def Let_def checked_div_def
        bind_err_Inr split: option.splits)

lemma put_update: "map_of fs key = Some None \<Longrightarrow> put key v fs = AList.update key v fs"
  by (cases v) (simp_all add: put_def update_triv)

lemma put_chain:
  "put ''reach_distance_ratio'' v8 (put ''asymmetry_score'' v7
     (put ''right_elbow_flexion'' v6 (put ''left_elbow_flexion'' v5
       (put ''right_shoulder_abduction'' v4 (put ''left_shoulder_abduction'' v3
         (put ''trunk_flexion'' v2 (put ''neck_flexion'' v1 initial_features))))))) =
   [(''neck_flexion'', v1), (''trunk_flexion'', v2), (''left_shoulder_abduction'', v3),
    (''right_shoulder_abduction'', v4), (''left_elbow_flexion'', v5),
    (''right_elbow_flexion'', v6), (''asymmetry_score'', v7), (''reach_distance_ratio'', v8)]"
proof -
  have 1: "put ''neck_flexion'' v1 initial_features =
      [(''neck_flexion'', v1), (''trunk_flexion'', None), (''left_shoulder_abduction'', None),
       (''right_shoulder_abduction'', None), (''left_elbow_flexion'', None),
       (''right_elbow_flexion'', None), (''asymmetry_score'', None),
       (''reach_distance_ratio'', None)]"
    by (simp add: put_update initial_features_def feature_names_def)
  show ?thesis
    unfolding 1 by (simp add: put_update)
qed

lemma calculate_ergonomic_features_eq:
  "calculate_ergonomic_features kps = Inr (expected_features (get_keypoint_by_name kps))"
  unfolding calculate_ergonomic_features_def Let_def set_neck_flexion_put set_trunk_flexion_put
    set_vertex_angle_put set_asymmetry_score_put set_reach_distance_ratio_put bind_err_Inr
    put_chain expected_features_def ..

lemma present_neck: "(neck_flexion_of n l r \<noteq> None) = (n \<noteq> None \<and> l \<noteq> None \<and> r \<noteq> None)"
  by (simp add: neck_flexion_of_def split: option.splits)

lemma present_trunk:
  "(trunk_flexion_of ls lh rs rh \<noteq> None) = (ls \<noteq> None \<and> lh \<noteq> None \<and> rs \<noteq> None \<and> rh \<noteq> None)"
  by (simp add: trunk_flexion_of_def split: option.splits)

lemma present_vertex:
  "(vertex_angle_of a b c \<noteq> None) = (a \<noteq> None \<and> b \<noteq> None \<and> c \<noteq> None)"
  by (simp add: vertex_angle_of_def split: option.splits)

lemma present_asymmetry: "(asymmetry_of l r \<noteq> None) = (l \<noteq> None \<and> r \<noteq> None)"
  by (simp add: asymmetry_of_def split: option.splits)

lemma present_reach:
  "(reach_ratio_of l r w \<noteq> None) =
     (l \<noteq> None \<and> r \<noteq> None \<and> w \<noteq> None \<and>
      \<not> (case (l, r) of (Some ls, Some rs) \<Rightarrow> \<bar>kp_x ls - kp_x rs\<bar> = 0 | _ \<Rightarrow> False))"
  by (cases l; cases r; cases w) (simp_all add: reach_ratio_of_def)

lemma expected_features_get:
  "dict_get (expected_features kp) ''neck_flexion'' =
     neck_flexion_of (kp ''nose'') (kp ''left_shoulder'') (kp ''right_shoulder'')"
  "dict_get (expected_features kp) ''trunk_flexion'' =
     trunk_flexion_of (kp ''left_shoulder'') (kp ''left_hip'')
       (kp ''right_shoulder'') (kp ''right_hip'')"
  "dict_get (expected_features kp) ''left_shoulder_abduction'' =
     vertex_angle_of (kp ''left_hip'') (kp ''left_shoulder'') (kp ''left_elbow'')"
  "dict_get (expected_features kp) ''right_shoulder_abduction'' =
     vertex_angle_of (kp ''right_hip'') (kp ''right_shoulder'') (kp ''right_elbow'')"
  "dict_get (expected_features kp) ''left_elbow_flexion'' =
     vertex_angle_of (kp ''left_shoulder'') (kp ''left_elbow'') (kp ''left_wrist'')"
  "dict_get (expected_features kp) ''right_elbow_flexion'' =
     vertex_angle_of (kp ''right_shoulder'') (kp ''right_elbow'') (kp ''right_wrist'')"
  "dict_get (expected_features kp) ''asymmetry_score'' =
     asymmetry_of (kp ''left_shoulder'') (kp ''right_shoulder'')"
  "dict_get (expected_features kp) ''reach_distance_ratio'' =
     reach_ratio_of (kp ''left_shoulder'') (kp ''right_shoulder'') (kp ''left_wrist'')"
  by (simp_all add: expected_features_def dict_get_def)

lemma required_keypoints_simps:
  "required_keypoints ''neck_flexion'' = [''nose'', ''left_shoulder'', ''right_shoulder'']"
  "required_keypoints ''trunk_flexion'' =
     [''left_shoulder'', ''left_hip'', ''right_shoulder'', ''right_hip'']"
  "required_keypoints ''left_shoulder_abduction'' =
     [''left_shoulder'', ''left_elbow'', ''left_hip'']"
  "required_keypoints ''right_shoulder_abduction'' =
     [''right_shoulder'', ''right_elbow'', ''right_hip'']"
  "required_keypoints ''left_elbow_flexion'' = [''left_shoulder'', ''left_elbow'', ''left_wrist'']"
  "required_keypoints ''right_elbow_flexion'' =
     [''right_shoulder'', ''right_elbow'', ''right_wrist'']"
  "required_keypoints ''asymmetry_score'' = [''left_shoulder'', ''right_shoulder'']"
  "required_keypoints ''reach_distance_ratio'' =
     [''left_shoulder'', ''right_shoulder'', ''left_wrist'']"
  by (simp_all add: required_keypoints_def)

lemmas present_iffs =
  present_neck present_trunk present_vertex present_asymmetry present_reach

lemma feature_present_iff:
  "\<forall>f \<in> set feature_names.
     (dict_get (expected_features kp) f \<noteq> None) =
       (list_all (\<lambda>n. kp n \<noteq> None) (required_keypoints f) \<and>
        (f = ''reach_distance_ratio'' \<longrightarrow> \<not> shoulder_width_zero kp))"
  by (simp add: feature_names_def expected_features_get required_keypoints_simps present_iffs
        shoulder_width_zero_def conj_commute conj_left_commute del: not_None_eq)

lemma feature_depends_on_required:
  "\<forall>f \<in> set feature_names.
     list_all (\<lambda>n. kp n = kp' n) (required_keypoints f) \<longrightarrow>
     dict_get (expected_features kp) f = dict_get (expected_features kp') f"
  by (simp add: feature_names_def expected_features_get required_keypoints_simps)

text \<open>
  Claim C7.  The extractor returns a feature dict in which each of the eight features is
  present exactly when all the keypoints it needs are found by name, the reach ratio only
  if moreover the shoulder width is not 0; and a feature is the same for two keypoint lists
  that agree on the keypoints it needs, whatever else is missing from either.
\<close>

theorem feature_computed_iff_keypoints_found:
  "\<exists>fs fs'. calculate_ergonomic_features kps = Inr fs \<and>
      calculate_ergonomic_features kps' = Inr fs' \<and>
      (\<forall>f \<in> set feature_names.
         (dict_get fs f \<noteq> None) =
           (list_all (\<lambda>n. get_keypoint_by_name kps n \<noteq> None) (required_keypoints f) \<and>
            (f = ''reach_distance_ratio'' \<longrightarrow> \<not> shoulder_width_zero (get_keypoint_by_name kps))) \<and>
         (list_all (\<lambda>n. get_keypoint_by_name kps n = get_keypoint_by_name kps' n)
                   (required_keypoints f) \<longrightarrow>
          dict_get fs f = dict_get fs' f))"
proof -
  let ?kp = "get_keypoint_by_name kps" and ?kp' = "get_keypoint_by_name kps'"
  have body: "\<forall>f \<in> set feature_names.
         (dict_get (expected_features ?kp) f \<noteq> None) =
           (list_all (\<lambda>n. ?kp n \<noteq> None) (required_keypoints f) \<and>
            (f = ''reach_distance_ratio'' \<longrightarrow> \<not> shoulder_width_zero ?kp)) \<and>
         (list_all (\<lambda>n. ?kp n = ?kp' n) (required_keypoints f) \<longrightarrow>
          dict_get (expected_features ?kp) f = dict_get (expected_features ?kp') f)"
  proof
    fix f assume f: "f \<in> set feature_names"
    show "(dict_get (expected_features ?kp) f \<noteq> None) =
           (list_all (\<lambda>n. ?kp n \<noteq> None) (required_keypoints f) \<and>
            (f = ''reach_distance_ratio'' \<longrightarrow> \<not> shoulder_width_zero ?kp)) \<and>
         (list_all (\<lambda>n. ?kp n = ?kp' n) (required_keypoints f) \<longrightarrow>
          dict_get (expected_features ?kp) f = dict_get (expected_features ?kp') f)"
      using bspec [OF feature_present_iff f, of ?kp]
        bspec [OF feature_depends_on_required f, of ?kp ?kp']
      by (rule conjI)
  qed
  show ?thesis
    unfolding calculate_ergonomic_features_eq
    apply (rule exI [of _ "expected_features ?kp"])
    apply (rule exI [of _ "expected_features ?kp'"])
    apply (intro conjI refl)
    apply (rule body)
    done
qed

text \<open>Nose and both shoulders: neck flexion and asymmetry are present, trunk flexion is not.
  Without the nose, neck flexion is absent and the asymmetry is unchanged.\<close>

theorem feature_computed_iff_keypoints_found_witness:
  "\<exists>fs fs'. calculate_ergonomic_features scenario_keypoints = Inr fs \<and>
      calculate_ergonomic_features (tl scenario_keypoints) = Inr fs' \<and>
      dict_get fs ''neck_flexion'' \<noteq> None \<and> dict_get fs ''trunk_flexion'' = None \<and>
      dict_get fs' ''neck_flexion'' = None \<and>
      dict_get fs ''asymmetry_score'' \<noteq> None \<and>
      dict_get fs' ''asymmetry_score'' = dict_get fs ''asymmetry_score''"
proof -
  let ?k = "scenario_keypoints" and ?k' = "tl scenario_keypoints"
  from feature_computed_iff_keypoints_found [of ?k ?k']
  obtain fs fs' where
    fs: "calculate_ergonomic_features ?k = Inr fs" and
    fs': "calculate_ergonomic_features ?k' = Inr fs'" and
    all: "\<forall>f \<in> set feature_names.
         (dict_get fs f \<noteq> None) =
           (list_all (\<lambda>n. get_keypoint_by_name ?k n \<noteq> None) (required_keypoints f) \<and>
            (f = ''reach_distance_ratio'' \<longrightarrow> \<not> shoulder_width_zero (get_keypoint_by_name ?k))) \<and>
         (list_all (\<lambda>n. get_keypoint_by_name ?k n = get_keypoint_by_name ?k' n)
                   (required_keypoints f) \<longrightarrow>
          dict_get fs f = dict_get fs' f)"
    by blast
  from feature_computed_iff_keypoints_found [of ?k' ?k']
  obtain gs where
    gs: "calculate_ergonomic_features ?k' = Inr gs" and
    all': "\<forall>f \<in> set feature_names.
         (dict_get gs f \<noteq> None) =
           (list_all (\<lambda>n. get_keypoint_by_name ?k' n \<noteq> None) (required_keypoints f) \<and>
            (f = ''reach_distance_ratio'' \<longrightarrow> \<not> shoulder_width_zero (get_keypoint_by_name ?k')))"
    by blast
  from fs' gs have eq: "gs = fs'" by simp
  have names: "''neck_flexion'' \<in> set feature_names" "''asymmetry_score'' \<in> set feature_names"
    "''trunk_flexion'' \<in> set feature_names"
    by (simp_all add: feature_names_def)
  have 1: "dict_get fs ''neck_flexion'' \<noteq> None"
    using bspec [OF all names(1), THEN conjunct1]
    by (simp add: required_keypoints_simps scenario_keypoints_def del: not_None_eq)
  have 2: "dict_get fs ''trunk_flexion'' = None"
    using bspec [OF all names(3), THEN conjunct1]
    by (simp add: required_keypoints_simps scenario_keypoints_def del: not_None_eq)
  have 3: "dict_get fs' ''neck_flexion'' = None"
    using bspec [OF all' names(1)] unfolding eq
    by (simp add: required_keypoints_simps scenario_keypoints_def del: not_None_eq)
  have 4: "dict_get fs ''asymmetry_score'' \<noteq> None"
    using bspec [OF all names(2), THEN conjunct1]
    by (simp add: required_keypoints_simps scenario_keypoints_def del: not_None_eq)
  have 5: "dict_get fs' ''asymmetry_score'' = dict_get fs ''asymmetry_score''"
    using bspec [OF all names(2), THEN conjunct2]
    by (simp add: required_keypoints_simps scenario_keypoints_def del: not_None_eq)
  from fs fs' 1 2 3 4 5 show ?thesis by blast
qed

lemma get_keypoint_by_name_Nil: "get_keypoint_by_name [] = (\<lambda>n. None)"
  by (rule ext) simp

lemma expected_features_none: "expected_features (\<lambda>n. None) = initial_features"
  by (simp add: expected_features_def initial_features_def feature_names_def neck_flexion_of_def
        trunk_flexion_of_def vertex_angle_of_def asymmetry_of_def reach_ratio_of_def)

text \<open>
  Claim C8.  The extractor returns a feature dict for every keypoint list and never an
  error; with no keypoints it returns the eight keys bound to \<open>None\<close>.  The angle
  computation never fails: its divisor is positive and the clipped cosine lies in
  \<open>[-1, 1]\<close>.  The reach ratio is divided only under the test that the shoulder width is
  positive, so that block never fails either.
\<close>

theorem extractor_never_raises:
  "(\<exists>fs. calculate_ergonomic_features kps = Inr fs) \<and>
   calculate_ergonomic_features [] = Inr initial_features \<and>
   (\<exists>d. calculate_angle p1 p2 p3 = Inr d) \<and>
   0 < norm2 v * norm2 w + 1 / 10 ^ 6 \<and>
   - 1 \<le> clip c (- 1) 1 \<and> clip c (- 1) 1 \<le> 1 \<and>
   (\<exists>fs'. set_reach_distance_ratio ls rs lw fs = Inr fs')"
proof -
  have "calculate_ergonomic_features [] = Inr initial_features"
    by (simp add: calculate_ergonomic_features_eq get_keypoint_by_name_Nil
          expected_features_none)
  then show ?thesis
    using clip_bounds [of c] angle_divisor_pos [of v w]
    by (simp add: calculate_ergonomic_features_eq calculate_angle_total
          set_reach_distance_ratio_put)
qed

text \<open>At the scenario keypoints; at three coinciding points, where both vectors are zero;
  and at coinciding shoulders, where the shoulder width is 0.\<close>

theorem extractor_never_raises_witness:
  "(\<exists>fs. calculate_ergonomic_features scenario_keypoints = Inr fs) \<and>
   (\<exists>d. calculate_angle (0, 0) (0, 0) (0, 0) = Inr d) \<and>
   (\<exists>fs'. set_reach_distance_ratio (Some (hd scenario_keypoints)) (Some (hd scenario_keypoints))
             (Some (hd scenario_keypoints)) initial_features = Inr fs')"
  using extractor_never_raises [of scenario_keypoints "(0, 0)" "(0, 0)" "(0, 0)" _ _ _
          "Some (hd scenario_keypoints)" "Some (hd scenario_keypoints)"
          "Some (hd scenario_keypoints)" initial_features]
  by blast

lemma expected_features_keys: "map fst (expected_features kp) = feature_names"
  by (simp add: expected_features_def feature_names_def)

text \<open>
  Claim C10.  For every keypoint list the extractor returns a dict with exactly the eight
  feature keys, in the order of the source; it is never empty, so \<open>compute_risk\<close> on it does
  not take the empty-features branch: its result is not the one of that branch, and it
  holds the REBA and RULA scores whenever the REBA scoring does not raise.
\<close>

theorem extractor_output_has_eight_keys:
  "\<exists>fs. calculate_ergonomic_features kps = Inr fs \<and>
      map fst fs = feature_names \<and> length fs = 8 \<and> fs \<noteq> [] \<and>
      compute_risk sc (Some fs) \<noteq> no_features_assessment \<and>
      (\<forall>rb. calculate_reba_score sc fs = Inr rb \<longrightarrow>
         reba (compute_risk sc (Some fs)) = Some (reba_score rb) \<and>
         rula (compute_risk sc (Some fs)) = Some (rula_score (calculate_rula_score sc fs)))"
proof -
  let ?fs = "expected_features (get_keypoint_by_name kps)"
  have ne: "?fs \<noteq> []" by (simp add: expected_features_def)
  have len: "length ?fs = 8" by (simp add: expected_features_def)
  have in_fs: "(case Some ?fs of None \<Rightarrow> [] | Some f \<Rightarrow> f) = ?fs" by simp
  have not_empty_branch: "compute_risk sc (Some ?fs) \<noteq> no_features_assessment"
  proof (cases "calculate_reba_score sc ?fs")
    case (Inl e)
    show ?thesis
      unfolding compute_risk_raised [OF in_fs ne Inl]
      by (simp add: error_assessment_def no_features_assessment_def)
  next
    case (Inr rb)
    show ?thesis
      unfolding compute_risk_scored [OF in_fs ne Inr]
      by (simp add: no_features_assessment_def)
  qed
  have scored: "reba (compute_risk sc (Some ?fs)) = Some (reba_score rb) \<and>
         rula (compute_risk sc (Some ?fs)) = Some (rula_score (calculate_rula_score sc ?fs))"
    if "calculate_reba_score sc ?fs = Inr rb" for rb
    unfolding compute_risk_scored [OF in_fs ne that] by simp
  from ne len not_empty_branch scored show ?thesis
    by (simp add: calculate_ergonomic_features_eq expected_features_keys)
qed

text \<open>With no keypoints at all the dict still has the eight keys and the RULA score is
  0, not null.\<close>

theorem extractor_output_has_eight_keys_witness:
  "\<exists>fs. calculate_ergonomic_features [] = Inr fs \<and> map fst fs = feature_names \<and>
      (\<exists>rb. calculate_reba_score default_scorer fs = Inr rb) \<and>
      rula (compute_risk default_scorer (Some fs)) = Some 0"
proof -
  from extractor_output_has_eight_keys [of "[]" default_scorer]
  obtain fs where fs: "calculate_ergonomic_features [] = Inr fs" "map fst fs = feature_names"
    and sc: "\<forall>rb. calculate_reba_score default_scorer fs = Inr rb \<longrightarrow>
       reba (compute_risk default_scorer (Some fs)) = Some (reba_score rb) \<and>
       rula (compute_risk default_scorer (Some fs)) =
         Some (rula_score (calculate_rula_score default_scorer fs))"
    by blast
  from fs(1) have eq: "fs = initial_features"
    by (simp add: calculate_ergonomic_features_eq get_keypoint_by_name_Nil
          expected_features_none)
  from sc [unfolded eq, rule_format, OF initial_features_reba] fs show ?thesis
    unfolding eq by (simp add: initial_features_reba initial_features_rula)
qed

section \<open>Properties of the orchestrator\<close>

lemma process_batch_loop_acc:
  "process_batch_loop pre infer cfg s paths acc =
     (acc @ fst (process_batch_loop pre infer cfg s paths []),
      snd (process_batch_loop pre infer cfg s paths []))"
proof (induction paths arbitrary: s acc)
  case Nil
  show ?case by simp
next
  case (Cons p ps)
  obtain r s' where r: "process_image pre infer cfg s p = (r, s')" by (cases "process_image pre infer cfg s p")
  show ?case
    using Cons.IH [of s' "acc @ [r]"] Cons.IH [of s' "[r]"] by (simp add: r)
qed

lemma process_batch_Cons:
  "process_batch pre infer cfg s (p # ps) =
     (fst (process_image pre infer cfg s p) #
        fst (process_batch pre infer cfg (snd (process_image pre infer cfg s p)) ps),
      snd (process_batch pre infer cfg (snd (process_image pre infer cfg s p)) ps))"
proof -
  obtain r s' where r: "process_image pre infer cfg s p = (r, s')" by (cases "process_image pre infer cfg s p")
  show ?thesis
    unfolding process_batch_def
    using process_batch_loop_acc [of pre infer cfg s' ps "[r]"] by (simp add: r)
qed

lemma process_batch_Nil: "process_batch pre infer cfg s [] = ([], s)"
  by (simp add: process_batch_def)

lemma process_batch_length:
  "length (fst (process_batch pre infer cfg s paths)) = length paths"
  by (induction paths arbitrary: s) (simp_all add: process_batch_Nil process_batch_Cons)

lemma process_image_failure:
  "fst (process_image_try pre infer cfg s p) = Inl e \<Longrightarrow>
   fst (process_image pre infer cfg s p) = failure_result e"
  by (cases "process_image_try pre infer cfg s p") (simp add: process_image_def)

lemma process_image_try_stages:
  "fst (pre s p) = Inl e \<Longrightarrow> fst (process_image_try pre infer cfg s p) = Inl e"
  "pre s p = (Inr img, s1) \<Longrightarrow> fst (infer s1 img) = Inl e \<Longrightarrow>
     fst (process_image_try pre infer cfg s p) = Inl e"
  "pre s p = (Inr img, s1) \<Longrightarrow> infer s1 img = (Inr out, s2) \<Longrightarrow>
     extract_keypoints cfg out = Inl e \<Longrightarrow>
     fst (process_image_try pre infer cfg s p) = Inl e"
    apply (cases "pre s p"; simp add: process_image_try_def)
   apply (cases "infer s1 img"; simp add: process_image_try_def)
  apply (simp add: process_image_try_def bind_err_def)
  done

text \<open>
  Claim C9.  When preprocessing, inference or decoding raises, \<open>process_image\<close> returns
  the failure dict (success false, the error, no keypoints, empty features) instead of
  raising.  \<open>process_batch\<close> returns one result per input: the result of the first input
  followed by the results of the rest, whether or not the first one failed.
\<close>

theorem failures_are_results_and_batch_continues:
  "(fst (pre s p) = Inl e \<longrightarrow> fst (process_image pre infer cfg s p) = failure_result e) \<and>
   (pre s p = (Inr img, s1) \<and> fst (infer s1 img) = Inl e \<longrightarrow>
      fst (process_image pre infer cfg s p) = failure_result e) \<and>
   (pre s p = (Inr img, s1) \<and> infer s1 img = (Inr out, s2) \<and> extract_keypoints cfg out = Inl e \<longrightarrow>
      fst (process_image pre infer cfg s p) = failure_result e) \<and>
   (fst (process_image_try pre infer cfg s p) = Inl e \<longrightarrow>
      fst (process_image pre infer cfg s p) =
        \<lparr> success = False, error = Some e, keypoints = [], ergonomic_features = [],
          num_keypoints_detected = 0 \<rparr>) \<and>
   length (fst (process_batch pre infer cfg s paths)) = length paths \<and>
   process_batch pre infer cfg s [] = ([], s) \<and>
   process_batch pre infer cfg s (p # paths) =
     (fst (process_image pre infer cfg s p) #
        fst (process_batch pre infer cfg (snd (process_image pre infer cfg s p)) paths),
      snd (process_batch pre infer cfg (snd (process_image pre infer cfg s p)) paths))"
proof (intro conjI impI)
  assume "fst (pre s p) = Inl e"
  then show "fst (process_image pre infer cfg s p) = failure_result e"
    by (intro process_image_failure process_image_try_stages(1))
next
  assume "pre s p = (Inr img, s1) \<and> fst (infer s1 img) = Inl e"
  then show "fst (process_image pre infer cfg s p) = failure_result e"
    by (intro process_image_failure process_image_try_stages(2) [of pre s p img s1]) simp_all
next
  assume "pre s p = (Inr img, s1) \<and> infer s1 img = (Inr out, s2) \<and>
          extract_keypoints cfg out = Inl e"
  then show "fst (process_image pre infer cfg s p) = failure_result e"
    by (intro process_image_failure process_image_try_stages(3) [of pre s p img s1 _ out s2])
       simp_all
next
  assume "fst (process_image_try pre infer cfg s p) = Inl e"
  then show "fst (process_image pre infer cfg s p) =
        \<lparr> success = False, error = Some e, keypoints = [], ergonomic_features = [],
          num_keypoints_detected = 0 \<rparr>"
    by (simp add: process_image_failure failure_result_def)
next
  show "length (fst (process_batch pre infer cfg s paths)) = length paths"
    by (rule process_batch_length)
  show "process_batch pre infer cfg s [] = ([], s)"
    by (rule process_batch_Nil)
  show "process_batch pre infer cfg s (p # paths) =
     (fst (process_image pre infer cfg s p) #
        fst (process_batch pre infer cfg (snd (process_image pre infer cfg s p)) paths),
      snd (process_batch pre infer cfg (snd (process_image pre infer cfg s p)) paths))"
    by (rule process_batch_Cons)
qed

lemma sample_success:
  "success (fst (process_image sample_preprocess sample_inference sample_pose_config s
                   ''ok.jpg''))"
proof -
  have sh: "shape sample_tensor = [1, 3, 3]" by (simp add: sample_tensor_def)
  have k: "extract_keypoints sample_pose_config sample_tensor =
      Inr (map (expected_keypoint [''nose'', ''left_eye''] sample_tensor)
             (filter (\<lambda>i. as_dtype sample_tensor (3 / 10) \<le> item sample_tensor [0, i, 2])
                [0 ..< 3]))"
    by (rule extract_keypoints_shaped [where b = 1]) (simp_all add: sample_pose_config_def sh)
  show ?thesis
    by (simp add: process_image_def process_image_try_def sample_preprocess_def
          sample_inference_def k bind_err_def calculate_ergonomic_features_eq)
qed

text \<open>A batch of an unreadable image, an image with a malformed tensor and a good image
  gives three results: two failures and a success.\<close>

theorem failures_are_results_and_batch_continues_witness:
  "fst (sample_preprocess 0 ''missing.jpg'') = Inl (External ''Failed to load image'') \<and>
   fst (process_image sample_preprocess sample_inference sample_pose_config 0 ''missing.jpg'') =
     failure_result (External ''Failed to load image'') \<and>
   fst (sample_inference 0 ''crash.jpg'') = Inl (External ''Model not loaded'') \<and>
   fst (process_image sample_preprocess sample_inference sample_pose_config 0 ''crash.jpg'') =
     failure_result (External ''Model not loaded'') \<and>
   extract_keypoints sample_pose_config short_row_tensor = Inl ValueError \<and>
   fst (process_image sample_preprocess sample_inference sample_pose_config 0 ''short.jpg'') =
     failure_result ValueError \<and>
   length (fst (process_batch sample_preprocess sample_inference sample_pose_config 0
                  [''missing.jpg'', ''short.jpg'', ''ok.jpg''])) = 3 \<and>
   map success (fst (process_batch sample_preprocess sample_inference sample_pose_config 0
                  [''missing.jpg'', ''short.jpg'', ''ok.jpg''])) = [False, False, True]"
proof -
  let ?pb = "process_batch sample_preprocess sample_inference sample_pose_config"
  let ?pi = "process_image sample_preprocess sample_inference sample_pose_config"
  have pre1: "fst (sample_preprocess 0 ''missing.jpg'') = Inl (External ''Failed to load image'')"
    by (simp add: sample_preprocess_def)
  have pre2: "sample_preprocess 0 ''crash.jpg'' = (Inr ''crash.jpg'', 0) \<and>
      fst (sample_inference 0 ''crash.jpg'') = Inl (External ''Model not loaded'')"
    by (simp add: sample_preprocess_def sample_inference_def)
  have pre3: "sample_preprocess 0 ''short.jpg'' = (Inr ''short.jpg'', 0) \<and>
      sample_inference 0 ''short.jpg'' = (Inr short_row_tensor, 1) \<and>
      extract_keypoints sample_pose_config short_row_tensor = Inl ValueError"
    by (simp add: sample_preprocess_def sample_inference_def short_row_tensor_def ndim_def
          extract_keypoints_def sample_pose_config_def unpack_row_def upt_rec)
  have r1: "fst (?pi 0 ''missing.jpg'') = failure_result (External ''Failed to load image'')"
    using failures_are_results_and_batch_continues
      [of sample_preprocess 0 "''missing.jpg''" "External ''Failed to load image''"
          sample_inference sample_pose_config] pre1
    by blast
  have r2: "fst (?pi 0 ''crash.jpg'') = failure_result (External ''Model not loaded'')"
    using failures_are_results_and_batch_continues
      [of sample_preprocess 0 "''crash.jpg''" "External ''Model not loaded''"
          sample_inference sample_pose_config "''crash.jpg''" 0] pre2
    by blast
  have r3: "fst (?pi 0 ''short.jpg'') = failure_result ValueError"
    using failures_are_results_and_batch_continues
      [of sample_preprocess 0 "''short.jpg''" ValueError
          sample_inference sample_pose_config "''short.jpg''" 0 short_row_tensor 1] pre3
    by blast
  have len: "length (fst (?pb 0 [''missing.jpg'', ''short.jpg'', ''ok.jpg''])) = 3"
    using failures_are_results_and_batch_continues
      [of sample_preprocess 0 _ _ sample_inference sample_pose_config _ _ _ _
          "[''missing.jpg'', ''short.jpg'', ''ok.jpg'']"]
    by simp
  have s1: "snd (?pi 0 ''missing.jpg'') = 0"
    by (simp add: process_image_def process_image_try_def sample_preprocess_def)
  have s3: "snd (?pi 0 ''short.jpg'') = 1"
    using pre3 by (simp add: process_image_def process_image_try_def bind_err_def)
  have "map success (fst (?pb 0 [''missing.jpg'', ''short.jpg'', ''ok.jpg''])) =
      [False, False, True]"
    by (simp add: process_batch_Cons process_batch_Nil r1 r3 s1 s3 sample_success
          failure_result_def)
  with pre1 pre2 pre3 r1 r2 r3 len show ?thesis by simp
qed

end
